theory Spec2Isabelle
  imports Main "HOL-Library.Word"
begin

unbundle bit_operations_syntax

section \<open>Data model of shadow\_bp.cpp\<close>

text \<open>
  The stealth breakpoint core of DdiMon (\<^verbatim>\<open>src/DdiMon/shadow_bp.cpp\<close>) is embedded as
  functions on an explicit machine state. Pointers and addresses are 64-bit words, bytes are
  8-bit words. A call that bug-checks, trips an enabled assertion or dereferences a null
  pointer returns \<open>Inl\<close> of the reason; a call that returns gives \<open>Inr\<close> of its result and
  the state it leaves behind.
\<close>

type_synonym addr = "64 word"
type_synonym byte = "8 word"

text \<open>\<^verbatim>\<open>HANDLE\<close> thread ids and captured call-site arguments; \<^verbatim>\<open>nullptr\<close> is 0.\<close>

type_synonym HANDLE = "64 word"
type_synonym CapturedParameters = "64 word list"

datatype BreakpointType = kPre | kPost

text \<open>
  \<^verbatim>\<open>PatchInformation\<close>, with the fields the source file reads and writes. A handler is a
  function pointer, kept as the number of the function it points to (0 is \<^verbatim>\<open>nullptr\<close>).
  The two \<^verbatim>\<open>shared_ptr<Page>\<close> members are kept as the address of the page buffer the
  \<^verbatim>\<open>Page\<close> object owns (\<^verbatim>\<open>Page::page\<close>): two records share a shadow page exactly when
  they hold the same buffer address.
\<close>

record PatchInformation =
  patch_address :: addr
  type :: BreakpointType
  handler :: nat
  post_handler :: nat
  target_tid :: HANDLE
  parameters :: CapturedParameters
  name :: string
  shadow_page_base_for_rw :: addr
  shadow_page_base_for_exec :: addr
  pa_base_for_rw :: addr
  pa_base_for_exec :: addr

text \<open>The leaf entry of the extended page table, with the four bit fields the file touches.\<close>

record EptCommonEntry =
  read_access :: bool
  write_access :: bool
  execute_access :: bool
  physial_address :: "64 word"

datatype VmcsField = kGuestCr3 | kGuestRsp | kGuestRflags | kCpuBasedVmExecControl

datatype HyperPlatformBugCheck = kUnspecified | kCritialPoolAllocationFailure

text \<open>
  How a call can stop the host: \<^verbatim>\<open>HYPERPLATFORM_COMMON_BUG_CHECK\<close>, a failed
  \<^verbatim>\<open>NT_ASSERT\<close>/\<^verbatim>\<open>NT_VERIFY\<close> in a build that compiles assertions in, and a
  dereference of \<^verbatim>\<open>nullptr\<close>.
\<close>

datatype error = BugCheck HyperPlatformBugCheck | AssertionFailure | NullDereference

text \<open>
  The calls into the processor and the platform that the file makes, in the order it makes
  them: \<^verbatim>\<open>__writecr3\<close>, the call through \<^verbatim>\<open>info->handler\<close> (handler, patch address,
  guest stack pointer), \<^verbatim>\<open>UtilVmWrite\<close>, \<^verbatim>\<open>UtilInveptAll\<close> and
  \<^verbatim>\<open>KeInvalidateAllCaches\<close>.
\<close>

datatype event =
    WriteCr3 "64 word"
  | HandlerCall nat addr "64 word"
  | VmWrite VmcsField "64 word"
  | InveptAll
  | InvalidateAllCaches

text \<open>
  The machine state: the four globals of the file, and the parts of the platform it reads and
  writes.
  \<^item> \<open>g_sbpp_breakpoints\<close> is the vector of records in insertion order, \<open>None\<close> for
    \<^verbatim>\<open>nullptr\<close>;
  \<^item> \<open>g_sbpp_last_breakpoint\<close> is the record the pointer refers to, \<open>None\<close> for
    \<^verbatim>\<open>nullptr\<close>;
  \<^item> \<open>ept_data\<close> maps a guest page frame number to its leaf entry;
  \<^item> \<open>memory\<close> is the byte at each virtual address, \<open>va_to_pa\<close> what
    \<^verbatim>\<open>UtilPaFromVa\<close> answers;
  \<^item> \<open>pool\<close> lists the answers \<^verbatim>\<open>ExAllocatePoolWithTag\<close> will give to the next
    requests, 0 for \<^verbatim>\<open>nullptr\<close>; an exhausted list answers \<^verbatim>\<open>nullptr\<close>;
  \<^item> \<open>dbg\<close> says whether \<^verbatim>\<open>NT_ASSERT\<close> and \<^verbatim>\<open>NT_VERIFY\<close> are compiled in
    (a checked build) or expand to nothing (a free build);
  \<^item> \<open>trace\<close> records the platform calls made so far;
  \<^item> \<open>read_freed\<close> gives what a read through a pointer to a record returns once the
    record has been erased from the vector and its memory released: the record as it was,
    or whatever the allocator has left there.
\<close>

record state =
  g_sbpp_breakpoints :: "PatchInformation list option"
  g_sbpp_last_breakpoint :: "PatchInformation option"
  g_sbpp_previouse_guest_interrupt_flag :: bool
  ept_data :: "64 word \<Rightarrow> EptCommonEntry"
  memory :: "addr \<Rightarrow> byte"
  va_to_pa :: "addr \<Rightarrow> addr"
  vmcs :: "VmcsField \<Rightarrow> 64 word"
  cr3 :: "64 word"
  irql :: "8 word"
  current_thread_id :: HANDLE
  pool :: "addr list"
  dbg :: bool
  trace :: "event list"
  read_freed :: "PatchInformation \<Rightarrow> PatchInformation"

text \<open>
  A pre or post handler: called with the record, the guest registers pointer and the guest
  stack pointer; it may change the state (a pre handler installs a post breakpoint) or stop
  the host.
\<close>

type_synonym handler_fn = "PatchInformation \<Rightarrow> addr \<Rightarrow> 64 word \<Rightarrow> state \<Rightarrow> error + state"

section \<open>Helpers\<close>

definition ebind :: "error + 'a \<Rightarrow> ('a \<Rightarrow> error + 'b) \<Rightarrow> error + 'b" where
  "ebind m f = (case m of Inl e \<Rightarrow> Inl e | Inr x \<Rightarrow> f x)"

text \<open>
  The macros and constants of the platform headers that the file uses:
  \<^verbatim>\<open>PAGE_SIZE\<close> is 4096, \<^verbatim>\<open>PAGE_ALIGN\<close> clears the low 12 bits of an address,
  \<^verbatim>\<open>BYTE_OFFSET\<close> keeps them, \<^verbatim>\<open>DISPATCH_LEVEL\<close> is interrupt level 2, and
  \<^verbatim>\<open>UtilPfnFromPa\<close> shifts a physical address right by the page shift.
\<close>

definition PAGE_SIZE :: "64 word" where
  "PAGE_SIZE = 0x1000"

definition DISPATCH_LEVEL :: "8 word" where
  "DISPATCH_LEVEL = 2"

definition PAGE_ALIGN :: "addr \<Rightarrow> addr" where
  "PAGE_ALIGN va = va AND NOT (PAGE_SIZE - 1)"

definition BYTE_OFFSET :: "addr \<Rightarrow> 64 word" where
  "BYTE_OFFSET va = va AND (PAGE_SIZE - 1)"

definition UtilPfnFromPa :: "addr \<Rightarrow> 64 word" where
  "UtilPfnFromPa pa = drop_bit 12 pa"

definition UtilPaFromVa :: "state \<Rightarrow> addr \<Rightarrow> addr" where
  "UtilPaFromVa s va = va_to_pa s va"

text \<open>
  Modelled from the spec: \<^verbatim>\<open>EptGetEptPtEntry\<close> of the page-table library returns the leaf
  entry mapping the page of a guest-physical address; the entry is named by the frame number
  of that page.
\<close>

definition EptGetEptPtEntry :: "addr \<Rightarrow> 64 word" where
  "EptGetEptPtEntry pa = UtilPfnFromPa pa"

text \<open>
  The platform calls: a VMCS read returns the field, a VMCS write stores it, and the
  writes, the invalidation and the load of CR3 are recorded in the trace.
\<close>

definition UtilVmRead :: "state \<Rightarrow> VmcsField \<Rightarrow> 64 word" where
  "UtilVmRead s f = vmcs s f"

definition UtilVmWrite :: "VmcsField \<Rightarrow> 64 word \<Rightarrow> state \<Rightarrow> state" where
  "UtilVmWrite f v s = s\<lparr>vmcs := (vmcs s)(f := v), trace := trace s @ [VmWrite f v]\<rparr>"

definition UtilInveptAll :: "state \<Rightarrow> state" where
  "UtilInveptAll s = s\<lparr>trace := trace s @ [InveptAll]\<rparr>"

definition writecr3 :: "64 word \<Rightarrow> state \<Rightarrow> state" where
  "writecr3 v s = s\<lparr>cr3 := v, trace := trace s @ [WriteCr3 v]\<rparr>"

definition PsGetCurrentThreadId :: "state \<Rightarrow> HANDLE" where
  "PsGetCurrentThreadId s = current_thread_id s"

definition KeGetCurrentIrql :: "state \<Rightarrow> 8 word" where
  "KeGetCurrentIrql s = irql s"

text \<open>\<^verbatim>\<open>RtlCopyMemory(dst, src, n)\<close>: the \<open>n\<close> bytes from \<open>dst\<close> on take the bytes from \<open>src\<close> on.\<close>

definition RtlCopyMemory :: "addr \<Rightarrow> addr \<Rightarrow> 64 word \<Rightarrow> state \<Rightarrow> state" where
  "RtlCopyMemory dst src n s =
     s\<lparr>memory := (\<lambda>a. if a - dst < n then memory s (src + (a - dst)) else memory s a)\<rparr>"

text \<open>\<^verbatim>\<open>std::find_if\<close>: the position of the first element that satisfies the predicate.\<close>

fun find_if :: "('a \<Rightarrow> bool) \<Rightarrow> 'a list \<Rightarrow> nat option" where
  "find_if P [] = None"
| "find_if P (x # xs) = (if P x then Some 0 else map_option Suc (find_if P xs))"

text \<open>\<^verbatim>\<open>vector::erase(iter)\<close>: the element at that position goes, the order of the rest stays.\<close>

definition erase :: "nat \<Rightarrow> 'a list \<Rightarrow> 'a list" where
  "erase i xs = take i xs @ drop (Suc i) xs"

text \<open>
  \<^verbatim>\<open>auto ptrs = g_sbpp_breakpoints; NT_ASSERT(ptrs);\<close> followed by a use of \<^verbatim>\<open>*ptrs\<close>:
  with no vector the assertion stops a checked build and the use faults in a free build.
\<close>

definition deref_breakpoints :: "state \<Rightarrow> error + PatchInformation list" where
  "deref_breakpoints s =
     (case g_sbpp_breakpoints s of
        None \<Rightarrow> Inl (if dbg s then AssertionFailure else NullDereference)
      | Some ptrs \<Rightarrow> Inr ptrs)"

section \<open>The registry\<close>

definition SbppIsSbpActive :: "state \<Rightarrow> bool" where
  "SbppIsSbpActive s = (g_sbpp_breakpoints s \<noteq> None)"

definition SbpInitialization :: "state \<Rightarrow> state" where
  "SbpInitialization s = s\<lparr>g_sbpp_breakpoints := Some []\<rparr>"

text \<open>
  The three lookups. The first two return the record the found pointer refers to, as it is
  at the time of the lookup; the third returns the position in the vector, since its caller
  writes through the pointer.
\<close>

definition SbppFindPatchInfoByPage :: "addr \<Rightarrow> state \<Rightarrow> error + PatchInformation option" where
  "SbppFindPatchInfoByPage address s =
     ebind (deref_breakpoints s) (\<lambda>ptrs.
       Inr (map_option (\<lambda>i. ptrs ! i)
         (find_if (\<lambda>info. PAGE_ALIGN (patch_address info) = PAGE_ALIGN address) ptrs)))"

definition SbppFindPatchInfoByAddress :: "addr \<Rightarrow> state \<Rightarrow> error + PatchInformation option" where
  "SbppFindPatchInfoByAddress address s =
     ebind (deref_breakpoints s) (\<lambda>ptrs.
       Inr (map_option (\<lambda>i. ptrs ! i)
         (find_if (\<lambda>info. patch_address info = address) ptrs)))"

definition SbppFindDuplicatedPostPatchInfo :: "addr \<Rightarrow> HANDLE \<Rightarrow> state \<Rightarrow> error + nat option" where
  "SbppFindDuplicatedPostPatchInfo address tid s =
     ebind (deref_breakpoints s) (\<lambda>ptrs.
       Inr (find_if (\<lambda>info. type info = kPost
                          \<and> PAGE_ALIGN (patch_address info) = PAGE_ALIGN address
                          \<and> target_tid info = tid) ptrs))"

definition SbppAddBreakpointToList :: "PatchInformation \<Rightarrow> state \<Rightarrow> error + state" where
  "SbppAddBreakpointToList info s =
     (case g_sbpp_breakpoints s of
        None \<Rightarrow> Inl (if dbg s then AssertionFailure else NullDereference)
      | Some ptrs \<Rightarrow> Inr (s\<lparr>g_sbpp_breakpoints := Some (ptrs @ [info])\<rparr>))"

definition SbppDeleteBreakpointFromList :: "PatchInformation \<Rightarrow> state \<Rightarrow> error + state" where
  "SbppDeleteBreakpointFromList info s =
     ebind (deref_breakpoints s) (\<lambda>ptrs.
       case find_if (\<lambda>info2. patch_address info = patch_address info2
                           \<and> target_tid info = target_tid info2) ptrs of
         None \<Rightarrow> Inr s
       | Some iter \<Rightarrow> Inr (s\<lparr>g_sbpp_breakpoints := Some (erase iter ptrs)\<rparr>))"

section \<open>Shadow pages and record construction\<close>

text \<open>
  \<^verbatim>\<open>Page::Page\<close>: takes the next answer of the pool allocator and bug-checks when it is
  \<^verbatim>\<open>nullptr\<close>; otherwise the new object owns the returned buffer.
\<close>

definition ExAllocatePoolWithTag :: "state \<Rightarrow> addr \<times> state" where
  "ExAllocatePoolWithTag s =
     (case pool s of [] \<Rightarrow> (0, s) | p # rest \<Rightarrow> (p, s\<lparr>pool := rest\<rparr>))"

definition Page_ctor :: "state \<Rightarrow> error + addr \<times> state" where
  "Page_ctor s =
     (case ExAllocatePoolWithTag s of (page, s') \<Rightarrow>
        if page = 0 then Inl (BugCheck kCritialPoolAllocationFailure) else Inr (page, s'))"

text \<open>
  \<^verbatim>\<open>SbppEmbedBreakpoint\<close>: \<^verbatim>\<open>UtilForceCopyMemory\<close> writes the one byte \<^verbatim>\<open>0xcc\<close> at the
  address, then all caches are invalidated.
\<close>

definition SbppEmbedBreakpoint :: "addr \<Rightarrow> state \<Rightarrow> state" where
  "SbppEmbedBreakpoint address s =
     s\<lparr>memory := (memory s)(address := 0xcc), trace := trace s @ [InvalidateAllCaches]\<rparr>"

text \<open>\<^verbatim>\<open>std::make_unique<PatchInformation>()\<close>: every member value-initialised.\<close>

definition make_unique_PatchInformation :: PatchInformation where
  "make_unique_PatchInformation =
     \<lparr>patch_address = 0, type = kPre, handler = 0, post_handler = 0, target_tid = 0,
      parameters = [], name = [], shadow_page_base_for_rw = 0, shadow_page_base_for_exec = 0,
      pa_base_for_rw = 0, pa_base_for_exec = 0\<rparr>"

text \<open>
  The if/else of \<^verbatim>\<open>SbppCreateBreakpoint\<close> that yields the two shadow pages: those of a
  record already on the page, or two new ones, read/write first, each filled with the
  4096 bytes of the page that holds the address.
\<close>

definition shadow_pages_for :: "addr \<Rightarrow> PatchInformation option \<Rightarrow> state
    \<Rightarrow> error + (addr \<times> addr) \<times> state" where
  "shadow_pages_for address reusable_info s =
     (case reusable_info of
        Some r \<Rightarrow> Inr ((shadow_page_base_for_rw r, shadow_page_base_for_exec r), s)
      | None \<Rightarrow>
          ebind (Page_ctor s) (\<lambda>(rw, s1).
          ebind (Page_ctor s1) (\<lambda>(ex, s2).
            let page_base = PAGE_ALIGN address;
                s3 = RtlCopyMemory rw page_base PAGE_SIZE s2;
                s4 = RtlCopyMemory ex page_base PAGE_SIZE s3
            in Inr ((rw, ex), s4))))"

definition SbppCreateBreakpoint :: "addr \<Rightarrow> state \<Rightarrow> error + PatchInformation \<times> state" where
  "SbppCreateBreakpoint address s =
     ebind (SbppFindPatchInfoByPage address s) (\<lambda>reusable_info.
     ebind (shadow_pages_for address reusable_info s) (\<lambda>((rw, ex), s').
       let info = make_unique_PatchInformation
             \<lparr>shadow_page_base_for_rw := rw,
              shadow_page_base_for_exec := ex,
              patch_address := address,
              pa_base_for_rw := UtilPaFromVa s' rw,
              pa_base_for_exec := UtilPaFromVa s' ex\<rparr>
       in Inr (info, SbppEmbedBreakpoint (ex + BYTE_OFFSET address) s')))"

text \<open>
  \<^verbatim>\<open>BreakpointTarget\<close> carries the two handlers. The \<^verbatim>\<open>memcpy\<close> into the name array is
  kept as the assignment of the characters it copies.
\<close>

record BreakpointTarget =
  pre_handler :: nat
  target_post_handler :: nat

definition SbppCreatePreBreakpoint :: "addr \<Rightarrow> BreakpointTarget \<Rightarrow> string \<Rightarrow> state
    \<Rightarrow> error + PatchInformation \<times> state" where
  "SbppCreatePreBreakpoint address target nm s =
     ebind (SbppCreateBreakpoint address s) (\<lambda>(info_for_pre, s').
       Inr (info_for_pre\<lparr>type := kPre,
                         handler := pre_handler target,
                         post_handler := target_post_handler target,
                         target_tid := 0,
                         parameters := [],
                         name := nm\<rparr>, s'))"

definition SbppCreatePostBreakpoint :: "addr \<Rightarrow> PatchInformation \<Rightarrow> HANDLE
    \<Rightarrow> CapturedParameters \<Rightarrow> state \<Rightarrow> error + PatchInformation \<times> state" where
  "SbppCreatePostBreakpoint address info tid params s =
     ebind (SbppCreateBreakpoint address s) (\<lambda>(info_for_post, s').
       Inr (info_for_post\<lparr>type := kPost,
                          handler := post_handler info,
                          post_handler := 0,
                          target_tid := tid,
                          parameters := params,
                          name := name info\<rparr>, s'))"

section \<open>Programming the extended page table\<close>

definition SbppEnablePageShadowingForExec :: "PatchInformation \<Rightarrow> state \<Rightarrow> state" where
  "SbppEnablePageShadowingForExec info s =
     (let ept_pt_entry = EptGetEptPtEntry (UtilPaFromVa s (patch_address info));
          e = (ept_data s ept_pt_entry)
                \<lparr>write_access := False,
                 read_access := False,
                 physial_address := UtilPfnFromPa (pa_base_for_exec info)\<rparr>
      in UtilInveptAll (s\<lparr>ept_data := (ept_data s)(ept_pt_entry := e)\<rparr>))"

definition SbppEnablePageShadowingForRW :: "PatchInformation \<Rightarrow> state \<Rightarrow> state" where
  "SbppEnablePageShadowingForRW info s =
     (let ept_pt_entry = EptGetEptPtEntry (UtilPaFromVa s (patch_address info));
          e = (ept_data s ept_pt_entry)
                \<lparr>write_access := True,
                 read_access := True,
                 physial_address := UtilPfnFromPa (pa_base_for_rw info)\<rparr>
      in UtilInveptAll (s\<lparr>ept_data := (ept_data s)(ept_pt_entry := e)\<rparr>))"

definition SbppDisablePageShadowing :: "PatchInformation \<Rightarrow> state \<Rightarrow> state" where
  "SbppDisablePageShadowing info s =
     (let pa_base = UtilPaFromVa s (PAGE_ALIGN (patch_address info));
          ept_pt_entry = EptGetEptPtEntry pa_base;
          e = (ept_data s ept_pt_entry)
                \<lparr>execute_access := True,
                 write_access := True,
                 read_access := True,
                 physial_address := UtilPfnFromPa pa_base\<rparr>
      in UtilInveptAll (s\<lparr>ept_data := (ept_data s)(ept_pt_entry := e)\<rparr>))"

text \<open>The two hypercall bodies: every record of the vector in turn.\<close>

definition SbpVmCallEnablePageShadowing :: "PatchInformation list \<Rightarrow> state \<Rightarrow> state" where
  "SbpVmCallEnablePageShadowing breakpoints s =
     fold SbppEnablePageShadowingForExec breakpoints s"

definition SbpVmCallDisablePageShadowing :: "PatchInformation list \<Rightarrow> state \<Rightarrow> state" where
  "SbpVmCallDisablePageShadowing breakpoints s =
     fold SbppDisablePageShadowing breakpoints s"

section \<open>Monitor trap flag and the last event\<close>

text \<open>
  The byte the read/write shadow holds at the offset of the patch: a breakpoint there was
  written by the guest.
\<close>

definition SbppIsShadowBreakpoint :: "PatchInformation \<Rightarrow> state \<Rightarrow> bool" where
  "SbppIsShadowBreakpoint info s =
     (memory s (shadow_page_base_for_rw info + BYTE_OFFSET (patch_address info)) \<noteq> 0xcc)"

text \<open>
  Bit 27 of the processor-based VM-execution controls is the monitor trap flag, bit 9 of
  RFLAGS the interrupt flag. The controls are read as \<^verbatim>\<open>unsigned int\<close> and written back
  widened.
\<close>

definition monitor_trap_flag :: nat where
  "monitor_trap_flag = 27"

definition intf :: nat where
  "intf = 9"

definition assign_bit :: "nat \<Rightarrow> bool \<Rightarrow> 'a::len word \<Rightarrow> 'a word" where
  "assign_bit n b w = (if b then set_bit n w else unset_bit n w)"

definition SbppSetMonitorTrapFlag :: "bool \<Rightarrow> state \<Rightarrow> state" where
  "SbppSetMonitorTrapFlag enable s =
     (let vm_procctl = (ucast (UtilVmRead s kCpuBasedVmExecControl) :: 32 word);
          vm_procctl = assign_bit monitor_trap_flag enable vm_procctl;
          s1 = UtilVmWrite kCpuBasedVmExecControl (ucast vm_procctl) s;
          flags = UtilVmRead s1 kGuestRflags
      in if enable
         then UtilVmWrite kGuestRflags (assign_bit intf False flags)
                (s1\<lparr>g_sbpp_previouse_guest_interrupt_flag := bit flags intf\<rparr>)
         else UtilVmWrite kGuestRflags
                (assign_bit intf (g_sbpp_previouse_guest_interrupt_flag s1) flags) s1)"

definition SbppSaveLastPatchInfo :: "PatchInformation \<Rightarrow> state \<Rightarrow> error + state" where
  "SbppSaveLastPatchInfo info s =
     (if dbg s \<and> g_sbpp_last_breakpoint s \<noteq> None then Inl AssertionFailure
      else Inr (s\<lparr>g_sbpp_last_breakpoint := Some info\<rparr>))"

definition SbppRestoreLastPatchInfo :: "state \<Rightarrow> error + PatchInformation option \<times> state" where
  "SbppRestoreLastPatchInfo s =
     (let info = g_sbpp_last_breakpoint s
      in if dbg s \<and> info = None then Inl AssertionFailure
         else Inr (info, s\<lparr>g_sbpp_last_breakpoint := None\<rparr>))"

section \<open>The three VM-exit handlers and the registration calls\<close>

text \<open>
  The tail shared by the pre branch, the post branch of another thread and the EPT
  violation: read/write view, monitor trap flag, last event.
\<close>

definition step_over :: "PatchInformation \<Rightarrow> state \<Rightarrow> error + state" where
  "step_over info s =
     SbppSaveLastPatchInfo info
       (SbppSetMonitorTrapFlag True (SbppEnablePageShadowingForRW info s))"

text \<open>
  The call through \<^verbatim>\<open>info->handler\<close> between the two writes of CR3. \<open>handlers\<close> gives
  the function each handler number stands for; \<open>handler_entry\<close> is the state in which the
  handler starts, after the guest's CR3 is loaded and the guest stack pointer is read for
  its last argument.
\<close>

definition handler_entry :: "64 word \<Rightarrow> PatchInformation \<Rightarrow> state \<Rightarrow> state" where
  "handler_entry guest_cr3 info s =
     (let s1 = writecr3 guest_cr3 s
      in s1\<lparr>trace := trace s1 @
            [HandlerCall (handler info) (patch_address info) (UtilVmRead s1 kGuestRsp)]\<rparr>)"

definition call_handler :: "(nat \<Rightarrow> handler_fn) \<Rightarrow> PatchInformation \<Rightarrow> addr \<Rightarrow> 64 word
    \<Rightarrow> 64 word \<Rightarrow> state \<Rightarrow> error + state" where
  "call_handler handlers info gp_regs guest_cr3 vmm_cr3 s =
     (let s2 = handler_entry guest_cr3 info s
      in ebind (handlers (handler info) info gp_regs (UtilVmRead s2 kGuestRsp) s2) (\<lambda>s3.
           Inr (writecr3 vmm_cr3 s3)))"

text \<open>
  \<^verbatim>\<open>SbpHandleBreakpoint\<close>. In the pre branch and in the post branch of another
  thread the code reads the record through \<^verbatim>\<open>info\<close> once more after the handler has
  run; the fields read there (\<^verbatim>\<open>patch_address\<close> and the read/write shadow frame) are
  written only when a record is built, so the record as the lookup found it is used.

  In the post branch of the owner thread \<^verbatim>\<open>SbppDeleteBreakpointFromList(*info)\<close> erases
  the record that \<^verbatim>\<open>info\<close> points to (the first record with its address and thread),
  which destroys it. The call \<^verbatim>\<open>SbppDisablePageShadowing(*info, ept_data)\<close> that
  follows reads \<^verbatim>\<open>patch_address\<close> through that pointer: a read of released memory,
  which yields \<open>read_freed\<close> of the record.
\<close>

definition SbpHandleBreakpoint :: "(nat \<Rightarrow> handler_fn) \<Rightarrow> addr \<Rightarrow> addr \<Rightarrow> state
    \<Rightarrow> error + bool \<times> state" where
  "SbpHandleBreakpoint handlers guest_ip gp_regs s =
     (if \<not> SbppIsSbpActive s then Inr (False, s)
      else ebind (SbppFindPatchInfoByAddress guest_ip s) (\<lambda>found.
        case found of
          None \<Rightarrow> Inr (False, s)
        | Some info \<Rightarrow>
            if \<not> SbppIsShadowBreakpoint info s then Inr (False, s)
            else if KeGetCurrentIrql s > DISPATCH_LEVEL then Inl (BugCheck kUnspecified)
            else
              let guest_cr3 = UtilVmRead s kGuestCr3;
                  vmm_cr3 = cr3 s
              in if type info = kPre then
                   ebind (call_handler handlers info gp_regs guest_cr3 vmm_cr3 s) (\<lambda>s1.
                   ebind (step_over info s1) (\<lambda>s2. Inr (True, s2)))
                 else if target_tid info = PsGetCurrentThreadId s then
                   ebind (call_handler handlers info gp_regs guest_cr3 vmm_cr3 s) (\<lambda>s1.
                   ebind (SbppDeleteBreakpointFromList info s1) (\<lambda>s2.
                   ebind (SbppFindPatchInfoByPage guest_ip s2) (\<lambda>other.
                     if other = None
                     then Inr (True, SbppDisablePageShadowing (read_freed s2 info) s2)
                     else Inr (True, s2))))
                 else
                   ebind (step_over info s) (\<lambda>s2. Inr (True, s2))))"

definition SbpHandleMonitorTrapFlag :: "state \<Rightarrow> error + state" where
  "SbpHandleMonitorTrapFlag s =
     (if dbg s \<and> \<not> SbppIsSbpActive s then Inl AssertionFailure
      else ebind (SbppRestoreLastPatchInfo s) (\<lambda>(found, s1).
        case found of
          None \<Rightarrow> Inl NullDereference
        | Some info \<Rightarrow>
            Inr (SbppSetMonitorTrapFlag False (SbppEnablePageShadowingForExec info s1))))"

definition SbpHandleEptViolation :: "addr \<Rightarrow> state \<Rightarrow> error + state" where
  "SbpHandleEptViolation fault_va s =
     (if \<not> SbppIsSbpActive s then Inr s
      else ebind (SbppFindPatchInfoByPage fault_va s) (\<lambda>found.
        case found of
          None \<Rightarrow> Inr s
        | Some info \<Rightarrow> step_over info s))"

definition SbpCreatePreBreakpoint :: "addr \<Rightarrow> BreakpointTarget \<Rightarrow> string \<Rightarrow> state
    \<Rightarrow> error + state" where
  "SbpCreatePreBreakpoint address target nm s =
     ebind (SbppCreatePreBreakpoint address target nm s) (\<lambda>(info, s').
       SbppAddBreakpointToList info s')"

definition SbpCreateAndEnablePostBreakpoint :: "addr \<Rightarrow> PatchInformation
    \<Rightarrow> CapturedParameters \<Rightarrow> state \<Rightarrow> error + state" where
  "SbpCreateAndEnablePostBreakpoint address info params s =
     ebind (SbppFindDuplicatedPostPatchInfo address (PsGetCurrentThreadId s) s)
       (\<lambda>duplicated_info.
        case duplicated_info of
          Some i \<Rightarrow>
            Inr (s\<lparr>g_sbpp_breakpoints :=
                     map_option (\<lambda>ptrs. ptrs[i := (ptrs ! i)\<lparr>parameters := params\<rparr>])
                       (g_sbpp_breakpoints s)\<rparr>)
        | None \<Rightarrow>
            ebind (SbppCreatePostBreakpoint address info (PsGetCurrentThreadId s) params s)
              (\<lambda>(info_for_post, s1).
            ebind (SbppAddBreakpointToList info_for_post s1) (\<lambda>s2.
              Inr (SbppEnablePageShadowingForExec info_for_post s2))))"

section \<open>Example machine states\<close>

text \<open>
  A pre breakpoint at 0x5008 and the post breakpoint of thread 4 at 0x5010, on the same
  page, sharing the read/write shadow at 0x10000 and the exec shadow at 0x20000. The guest
  page holds 0x90 everywhere; the exec shadow holds 0xcc at the two patch offsets. The
  allocator overwrites the first field of a released record, the patch address, with 0.
\<close>

definition ex_pre :: PatchInformation where
  "ex_pre = \<lparr>patch_address = 0x5008, type = kPre, handler = 1, post_handler = 2,
     target_tid = 0, parameters = [], name = ''NtOpenFile'',
     shadow_page_base_for_rw = 0x10000, shadow_page_base_for_exec = 0x20000,
     pa_base_for_rw = 0x110000, pa_base_for_exec = 0x120000\<rparr>"

definition ex_post :: PatchInformation where
  "ex_post = \<lparr>patch_address = 0x5010, type = kPost, handler = 2, post_handler = 0,
     target_tid = 4, parameters = [0xaa], name = ''NtOpenFile'',
     shadow_page_base_for_rw = 0x10000, shadow_page_base_for_exec = 0x20000,
     pa_base_for_rw = 0x110000, pa_base_for_exec = 0x120000\<rparr>"

definition ex_entry :: "64 word \<Rightarrow> EptCommonEntry" where
  "ex_entry pfn = \<lparr>read_access = True, write_access = True, execute_access = True,
                   physial_address = pfn\<rparr>"

definition ex_vmcs :: "VmcsField \<Rightarrow> 64 word" where
  "ex_vmcs f = (case f of kGuestCr3 \<Rightarrow> 0x1ab000 | kGuestRsp \<Rightarrow> 0x7ff0
                | kGuestRflags \<Rightarrow> 0x202 | kCpuBasedVmExecControl \<Rightarrow> 0x80000000)"

definition ex_state :: state where
  "ex_state = \<lparr>g_sbpp_breakpoints = Some [ex_pre, ex_post],
     g_sbpp_last_breakpoint = None,
     g_sbpp_previouse_guest_interrupt_flag = False,
     ept_data = ex_entry,
     memory = (\<lambda>a. if a = 0x20008 \<or> a = 0x20010 then 0xcc else 0x90),
     va_to_pa = (\<lambda>va. va + 0x100000),
     vmcs = ex_vmcs,
     cr3 = 0x1aa000, irql = 0, current_thread_id = 4,
     pool = [0x30000, 0x40000], dbg = True, trace = [],
     read_freed = (\<lambda>r. r\<lparr>patch_address := 0\<rparr>)\<rparr>"

text \<open>
  The state while the guest steps over the instruction at 0x5008: the monitor trap flag is
  set, the interrupt flag of the guest is cleared and remembered as set, and the pre record
  is the last event.
\<close>

definition ex_stepping :: state where
  "ex_stepping = ex_state
     \<lparr>g_sbpp_last_breakpoint := Some ex_pre,
      g_sbpp_previouse_guest_interrupt_flag := True,
      vmcs := ex_vmcs(kGuestRflags := 0x2, kCpuBasedVmExecControl := 0x88000000)\<rparr>"

text \<open>
  The post record of thread 4 alone on its page, armed: the leaf entry of frame 0x105 is
  on the exec shadow with read and write denied.
\<close>

definition ex_last_post :: state where
  "ex_last_post = ex_state
     \<lparr>g_sbpp_breakpoints := Some [ex_post],
      ept_data := ex_entry(0x105 := \<lparr>read_access = False, write_access = False,
                                      execute_access = True, physial_address = 0x120\<rparr>)\<rparr>"

text \<open>
  Handlers for the examples: handler 1, the pre handler, installs the post breakpoint at
  the return address 0x5010 with the guest stack pointer as the captured parameter; every
  other handler returns at once.
\<close>

definition ex_handlers :: "nat \<Rightarrow> handler_fn" where
  "ex_handlers n info gp_regs rsp s =
     (if n = 1 then SbpCreateAndEnablePostBreakpoint 0x5010 info [rsp] s else Inr s)"

section \<open>Properties taken from the specification\<close>

text \<open>
  The specification's reasons for a breakpoint exit to be reported as not ours, in its
  words: no registry yet; the address is not tracked (the lookup by exact address finds
  no record); or the byte at offset (address mod 4096) within the read/write shadow of
  the found record equals 0xCC. This predicate is compared with what
  \<^verbatim>\<open>SbpHandleBreakpoint\<close> returns.
\<close>

definition spec_not_ours :: "addr \<Rightarrow> state \<Rightarrow> bool" where
  "spec_not_ours G s =
     (case g_sbpp_breakpoints s of
        None \<Rightarrow> True
      | Some ptrs \<Rightarrow>
          (case find (\<lambda>r. patch_address r = G) ptrs of
             None \<Rightarrow> True
           | Some info \<Rightarrow>
               memory s (shadow_page_base_for_rw info + patch_address info mod 4096) = 0xcc))"

text \<open>
  Invariant I2 of the specification: at most one record of type Post for a given pair of
  page and owner thread.
\<close>

definition post_key :: "PatchInformation \<Rightarrow> addr \<times> HANDLE" where
  "post_key r = (PAGE_ALIGN (patch_address r), target_tid r)"

definition post_unique :: "PatchInformation list \<Rightarrow> bool" where
  "post_unique ptrs = distinct (map post_key (filter (\<lambda>r. type r = kPost) ptrs))"

text \<open>
  Two buffers of \<^verbatim>\<open>PAGE_SIZE\<close> bytes that share no byte, as the pool allocator hands
  them out: each starts at least a page after the other, in the arithmetic of addresses.
\<close>

definition pages_apart :: "addr \<Rightarrow> addr \<Rightarrow> bool" where
  "pages_apart p q = (PAGE_SIZE \<le> p - q \<and> PAGE_SIZE \<le> q - p)"

text \<open>
  The page-table library builds every leaf entry with all three permissions, and this
  file assigns the execute permission only in \<^verbatim>\<open>SbppDisablePageShadowing\<close>, to true:
  the page tables it works on have leaf entries that all allow execution.
\<close>

definition ept_all_executable :: "state \<Rightarrow> bool" where
  "ept_all_executable s = (\<forall>k. execute_access (ept_data s k))"

section \<open>Lemmas on the helpers\<close>

lemma find_if_None: "find_if P xs = None \<longleftrightarrow> (\<forall>x\<in>set xs. \<not> P x)"
  by (induction xs) auto

lemma find_if_Some:
  "find_if P xs = Some i \<Longrightarrow> i < length xs \<and> P (xs ! i) \<and> (\<forall>j<i. \<not> P (xs ! j))"
proof (induction xs arbitrary: i)
  case Nil
  then show ?case by simp
next
  case (Cons x xs)
  show ?case
  proof (cases "P x")
    case True
    with Cons.prems show ?thesis by simp
  next
    case False
    with Cons.prems obtain k where k: "find_if P xs = Some k" "i = Suc k" by auto
    from Cons.IH [OF k(1)] False k(2) show ?thesis
      by (auto simp: nth_Cons split: nat.splits)
  qed
qed

lemma find_if_first:
  assumes "i < length xs" "P (xs ! i)" "\<forall>j<i. \<not> P (xs ! j)"
  shows "find_if P xs = Some i"
proof (cases "find_if P xs")
  case None
  with assms(1,2) show ?thesis by (auto simp: find_if_None)
next
  case (Some k)
  from find_if_Some [OF Some] have k: "k < length xs" "P (xs ! k)" "\<forall>j<k. \<not> P (xs ! j)"
    by auto
  have "\<not> k < i" using assms(3) k(2) by auto
  moreover have "\<not> i < k" using k(3) assms(2) by auto
  ultimately show ?thesis using Some by simp
qed

lemma find_if_exists:
  "\<exists>x\<in>set xs. P x \<Longrightarrow> \<exists>i. find_if P xs = Some i"
  by (cases "find_if P xs") (auto simp: find_if_None)

subsection \<open>Bits of the controls and of RFLAGS\<close>

lemma bit_procctl:
  "bit (ucast (assign_bit monitor_trap_flag b (ucast (w::64 word) :: 32 word)) :: 64 word) n
     \<longleftrightarrow> n < 32 \<and> (if n = monitor_trap_flag then b else bit w n)"
  by (auto simp: assign_bit_def monitor_trap_flag_def bit_simps)

lemma bit_procctl_mtf:
  "bit (ucast (assign_bit monitor_trap_flag b (ucast (w::64 word) :: 32 word)) :: 64 word)
     monitor_trap_flag = b"
  by (simp add: bit_procctl) (simp add: monitor_trap_flag_def)

lemma bit_rflags:
  "bit (assign_bit intf b (w::64 word)) n \<longleftrightarrow> (if n = intf then b else bit w n)"
  by (auto simp: assign_bit_def intf_def bit_simps dest: bit_imp_le_length)



subsection \<open>Effects of the page-table and trap-flag operations\<close>

lemmas engine_defs = SbppEnablePageShadowingForExec_def SbppEnablePageShadowingForRW_def
  SbppDisablePageShadowing_def UtilInveptAll_def Let_def

lemma SbppSetMonitorTrapFlag_vmcs:
  "vmcs (SbppSetMonitorTrapFlag enable s) =
     (vmcs s)(kCpuBasedVmExecControl :=
                ucast (assign_bit monitor_trap_flag enable
                         (ucast (vmcs s kCpuBasedVmExecControl) :: 32 word)),
              kGuestRflags :=
                assign_bit intf (if enable then False
                                 else g_sbpp_previouse_guest_interrupt_flag s)
                  (vmcs s kGuestRflags))"
  by (simp add: SbppSetMonitorTrapFlag_def UtilVmWrite_def UtilVmRead_def Let_def)

lemma SbppSetMonitorTrapFlag_trace:
  "trace (SbppSetMonitorTrapFlag enable s) =
     trace s @ [VmWrite kCpuBasedVmExecControl
                  (vmcs (SbppSetMonitorTrapFlag enable s) kCpuBasedVmExecControl),
                VmWrite kGuestRflags (vmcs (SbppSetMonitorTrapFlag enable s) kGuestRflags)]"
  by (simp add: SbppSetMonitorTrapFlag_def UtilVmWrite_def UtilVmRead_def Let_def)

lemma SbppSetMonitorTrapFlag_prev:
  "g_sbpp_previouse_guest_interrupt_flag (SbppSetMonitorTrapFlag enable s) =
     (if enable then bit (vmcs s kGuestRflags) intf
      else g_sbpp_previouse_guest_interrupt_flag s)"
  by (simp add: SbppSetMonitorTrapFlag_def UtilVmWrite_def UtilVmRead_def Let_def)

lemma SbppSetMonitorTrapFlag_frame:
  "g_sbpp_breakpoints (SbppSetMonitorTrapFlag enable s) = g_sbpp_breakpoints s"
  "g_sbpp_last_breakpoint (SbppSetMonitorTrapFlag enable s) = g_sbpp_last_breakpoint s"
  "ept_data (SbppSetMonitorTrapFlag enable s) = ept_data s"
  "memory (SbppSetMonitorTrapFlag enable s) = memory s"
  "va_to_pa (SbppSetMonitorTrapFlag enable s) = va_to_pa s"
  "cr3 (SbppSetMonitorTrapFlag enable s) = cr3 s"
  "irql (SbppSetMonitorTrapFlag enable s) = irql s"
  "current_thread_id (SbppSetMonitorTrapFlag enable s) = current_thread_id s"
  "pool (SbppSetMonitorTrapFlag enable s) = pool s"
  "dbg (SbppSetMonitorTrapFlag enable s) = dbg s"
  by (simp_all add: SbppSetMonitorTrapFlag_def UtilVmWrite_def UtilVmRead_def Let_def)

lemma SbppEnablePageShadowingForRW_ept:
  "ept_data (SbppEnablePageShadowingForRW info s) =
     (ept_data s)(EptGetEptPtEntry (UtilPaFromVa s (patch_address info)) :=
        (ept_data s (EptGetEptPtEntry (UtilPaFromVa s (patch_address info))))
          \<lparr>write_access := True, read_access := True,
           physial_address := UtilPfnFromPa (pa_base_for_rw info)\<rparr>)"
  by (simp add: engine_defs)

lemma SbppEnablePageShadowingForExec_ept:
  "ept_data (SbppEnablePageShadowingForExec info s) =
     (ept_data s)(EptGetEptPtEntry (UtilPaFromVa s (patch_address info)) :=
        (ept_data s (EptGetEptPtEntry (UtilPaFromVa s (patch_address info))))
          \<lparr>write_access := False, read_access := False,
           physial_address := UtilPfnFromPa (pa_base_for_exec info)\<rparr>)"
  by (simp add: engine_defs)

lemma SbppDisablePageShadowing_ept:
  "ept_data (SbppDisablePageShadowing info s) =
     (ept_data s)(EptGetEptPtEntry (UtilPaFromVa s (PAGE_ALIGN (patch_address info))) :=
        (ept_data s (EptGetEptPtEntry (UtilPaFromVa s (PAGE_ALIGN (patch_address info)))))
          \<lparr>execute_access := True, write_access := True, read_access := True,
           physial_address :=
             UtilPfnFromPa (UtilPaFromVa s (PAGE_ALIGN (patch_address info)))\<rparr>)"
  by (simp add: engine_defs)

lemma engine_trace:
  "trace (SbppEnablePageShadowingForRW info s) = trace s @ [InveptAll]"
  "trace (SbppEnablePageShadowingForExec info s) = trace s @ [InveptAll]"
  "trace (SbppDisablePageShadowing info s) = trace s @ [InveptAll]"
  by (simp_all add: engine_defs)

lemma engine_only_ept_and_trace:
  "(SbppEnablePageShadowingForRW info s)\<lparr>ept_data := ept_data s, trace := trace s\<rparr> = s"
  "(SbppEnablePageShadowingForExec info s)\<lparr>ept_data := ept_data s, trace := trace s\<rparr> = s"
  "(SbppDisablePageShadowing info s)\<lparr>ept_data := ept_data s, trace := trace s\<rparr> = s"
  by (simp_all add: engine_defs)

lemma engine_frame:
  "g_sbpp_breakpoints (SbppEnablePageShadowingForRW info s) = g_sbpp_breakpoints s"
  "g_sbpp_last_breakpoint (SbppEnablePageShadowingForRW info s) = g_sbpp_last_breakpoint s"
  "g_sbpp_previouse_guest_interrupt_flag (SbppEnablePageShadowingForRW info s)
     = g_sbpp_previouse_guest_interrupt_flag s"
  "vmcs (SbppEnablePageShadowingForRW info s) = vmcs s"
  "cr3 (SbppEnablePageShadowingForRW info s) = cr3 s"
  "memory (SbppEnablePageShadowingForRW info s) = memory s"
  "dbg (SbppEnablePageShadowingForRW info s) = dbg s"
  "g_sbpp_breakpoints (SbppEnablePageShadowingForExec info s) = g_sbpp_breakpoints s"
  "g_sbpp_last_breakpoint (SbppEnablePageShadowingForExec info s) = g_sbpp_last_breakpoint s"
  "g_sbpp_previouse_guest_interrupt_flag (SbppEnablePageShadowingForExec info s)
     = g_sbpp_previouse_guest_interrupt_flag s"
  "vmcs (SbppEnablePageShadowingForExec info s) = vmcs s"
  "cr3 (SbppEnablePageShadowingForExec info s) = cr3 s"
  "memory (SbppEnablePageShadowingForExec info s) = memory s"
  "dbg (SbppEnablePageShadowingForExec info s) = dbg s"
  "g_sbpp_breakpoints (SbppDisablePageShadowing info s) = g_sbpp_breakpoints s"
  "g_sbpp_last_breakpoint (SbppDisablePageShadowing info s) = g_sbpp_last_breakpoint s"
  "cr3 (SbppDisablePageShadowing info s) = cr3 s"
  "memory (SbppDisablePageShadowing info s) = memory s"
  by (simp_all add: engine_defs)

lemma step_over_result:
  assumes "dbg s \<longrightarrow> g_sbpp_last_breakpoint s = None"
  shows "\<exists>s'. step_over info s = Inr s'
     \<and> s' = (SbppSetMonitorTrapFlag True (SbppEnablePageShadowingForRW info s))
              \<lparr>g_sbpp_last_breakpoint := Some info\<rparr>"
  using assms
  by (auto simp: step_over_def SbppSaveLastPatchInfo_def SbppSetMonitorTrapFlag_frame engine_frame)

lemma step_over_fields:
  assumes "step_over info s = Inr s'"
  shows "g_sbpp_last_breakpoint s' = Some info"
    and "ept_data s' =
      (ept_data s)(EptGetEptPtEntry (UtilPaFromVa s (patch_address info)) :=
        (ept_data s (EptGetEptPtEntry (UtilPaFromVa s (patch_address info))))
          \<lparr>write_access := True, read_access := True,
           physial_address := UtilPfnFromPa (pa_base_for_rw info)\<rparr>)"
    and "trace s' = trace s @ [InveptAll,
           VmWrite kCpuBasedVmExecControl (vmcs s' kCpuBasedVmExecControl),
           VmWrite kGuestRflags (vmcs s' kGuestRflags)]"
    and "bit (vmcs s' kCpuBasedVmExecControl) monitor_trap_flag"
    and "\<not> bit (vmcs s' kGuestRflags) intf"
    and "g_sbpp_previouse_guest_interrupt_flag s' = bit (vmcs s kGuestRflags) intf"
    and "g_sbpp_breakpoints s' = g_sbpp_breakpoints s"
    and "cr3 s' = cr3 s"
    and "memory s' = memory s"
proof -
  from assms have s': "s' = (SbppSetMonitorTrapFlag True (SbppEnablePageShadowingForRW info s))
              \<lparr>g_sbpp_last_breakpoint := Some info\<rparr>"
    by (auto simp: step_over_def SbppSaveLastPatchInfo_def split: if_splits)
  show "g_sbpp_last_breakpoint s' = Some info" by (simp add: s')
  show "ept_data s' =
      (ept_data s)(EptGetEptPtEntry (UtilPaFromVa s (patch_address info)) :=
        (ept_data s (EptGetEptPtEntry (UtilPaFromVa s (patch_address info))))
          \<lparr>write_access := True, read_access := True,
           physial_address := UtilPfnFromPa (pa_base_for_rw info)\<rparr>)"
    by (simp add: s' SbppSetMonitorTrapFlag_frame SbppEnablePageShadowingForRW_ept)
  show "trace s' = trace s @ [InveptAll,
           VmWrite kCpuBasedVmExecControl (vmcs s' kCpuBasedVmExecControl),
           VmWrite kGuestRflags (vmcs s' kGuestRflags)]"
    by (simp add: s' SbppSetMonitorTrapFlag_trace engine_trace)
  show "bit (vmcs s' kCpuBasedVmExecControl) monitor_trap_flag"
    by (simp add: s' SbppSetMonitorTrapFlag_vmcs bit_procctl_mtf)
  show "\<not> bit (vmcs s' kGuestRflags) intf"
    by (simp add: s' SbppSetMonitorTrapFlag_vmcs bit_rflags)
  show "g_sbpp_previouse_guest_interrupt_flag s' = bit (vmcs s kGuestRflags) intf"
    by (simp add: s' SbppSetMonitorTrapFlag_prev engine_frame)
  show "g_sbpp_breakpoints s' = g_sbpp_breakpoints s"
    by (simp add: s' SbppSetMonitorTrapFlag_frame engine_frame)
  show "cr3 s' = cr3 s" by (simp add: s' SbppSetMonitorTrapFlag_frame engine_frame)
  show "memory s' = memory s" by (simp add: s' SbppSetMonitorTrapFlag_frame engine_frame)
qed

subsection \<open>The position found and the element found\<close>

lemma find_if_find: "map_option (\<lambda>i. xs ! i) (find_if P xs) = find P xs"
  by (induction xs) (simp_all add: option.map_comp o_def)

lemma find_if_None_find: "find_if P xs = None \<longleftrightarrow> find P xs = None"
  by (auto simp: find_if_None find_None_iff)

lemma find_Some_P: "find P xs = Some x \<Longrightarrow> P x \<and> x \<in> set xs"
  by (auto simp: find_Some_iff)

lemma erase_find_if_remove1:
  assumes "find P xs = Some x" "Q x" "\<forall>y\<in>set xs. Q y \<longrightarrow> P y"
  shows "\<exists>i. find_if Q xs = Some i \<and> erase i xs = remove1 x xs"
  using assms
proof (induction xs)
  case Nil
  then show ?case by simp
next
  case (Cons y ys)
  show ?case
  proof (cases "P y")
    case True
    with Cons.prems have "x = y" by simp
    with Cons.prems show ?thesis by (simp add: erase_def)
  next
    case False
    with Cons.prems have nq: "\<not> Q y" and f: "find P ys = Some x" by auto
    from find_Some_P [OF f] False have "x \<noteq> y" by auto
    from Cons.IH [OF f Cons.prems(2)] Cons.prems(3)
    obtain i where "find_if Q ys = Some i" "erase i ys = remove1 x ys" by auto
    with nq \<open>x \<noteq> y\<close> show ?thesis by (simp add: erase_def)
  qed
qed

subsection \<open>Lookups and the first steps of the breakpoint exit\<close>

lemma SbppFindPatchInfoByAddress_find:
  "g_sbpp_breakpoints s = Some ptrs \<Longrightarrow>
   SbppFindPatchInfoByAddress address s = Inr (find (\<lambda>r. patch_address r = address) ptrs)"
  by (simp add: SbppFindPatchInfoByAddress_def deref_breakpoints_def ebind_def find_if_find)

lemma SbppFindPatchInfoByPage_find:
  "g_sbpp_breakpoints s = Some ptrs \<Longrightarrow>
   SbppFindPatchInfoByPage address s
     = Inr (find (\<lambda>r. PAGE_ALIGN (patch_address r) = PAGE_ALIGN address) ptrs)"
  by (simp add: SbppFindPatchInfoByPage_def deref_breakpoints_def ebind_def find_if_find)

lemma SbpHandleBreakpoint_tracked:
  assumes "g_sbpp_breakpoints s = Some ptrs"
      and "find (\<lambda>r. patch_address r = guest_ip) ptrs = Some info"
  shows "SbpHandleBreakpoint handlers guest_ip gp_regs s =
     (if \<not> SbppIsShadowBreakpoint info s then Inr (False, s)
      else if irql s > DISPATCH_LEVEL then Inl (BugCheck kUnspecified)
      else if type info = kPre then
         ebind (call_handler handlers info gp_regs (vmcs s kGuestCr3) (cr3 s) s) (\<lambda>s1.
         ebind (step_over info s1) (\<lambda>s2. Inr (True, s2)))
      else if target_tid info = current_thread_id s then
         ebind (call_handler handlers info gp_regs (vmcs s kGuestCr3) (cr3 s) s) (\<lambda>s1.
         ebind (SbppDeleteBreakpointFromList info s1) (\<lambda>s2.
         ebind (SbppFindPatchInfoByPage guest_ip s2) (\<lambda>other.
           if other = None
           then Inr (True, SbppDisablePageShadowing (read_freed s2 info) s2)
           else Inr (True, s2))))
      else ebind (step_over info s) (\<lambda>s2. Inr (True, s2)))"
  using assms
  by (simp add: SbpHandleBreakpoint_def SbppIsSbpActive_def SbppFindPatchInfoByAddress_find
      ebind_def KeGetCurrentIrql_def UtilVmRead_def PsGetCurrentThreadId_def Let_def)

lemma SbpHandleBreakpoint_untracked:
  assumes "g_sbpp_breakpoints s = Some ptrs"
      and "find (\<lambda>r. patch_address r = guest_ip) ptrs = None"
  shows "SbpHandleBreakpoint handlers guest_ip gp_regs s = Inr (False, s)"
  using assms
  by (simp add: SbpHandleBreakpoint_def SbppIsSbpActive_def SbppFindPatchInfoByAddress_find
      ebind_def)

lemma SbpHandleBreakpoint_inactive:
  "g_sbpp_breakpoints s = None \<Longrightarrow>
   SbpHandleBreakpoint handlers guest_ip gp_regs s = Inr (False, s)"
  by (simp add: SbpHandleBreakpoint_def SbppIsSbpActive_def)

lemma Page_ctor_fails:
  "Page_ctor s = Inl (BugCheck kCritialPoolAllocationFailure)
     \<longleftrightarrow> (pool s = [] \<or> hd (pool s) = 0)"
  by (cases "pool s") (auto simp: Page_ctor_def ExAllocatePoolWithTag_def)

lemma Page_ctor_ok:
  "pool s = p # rest \<Longrightarrow> p \<noteq> 0 \<Longrightarrow> Page_ctor s = Inr (p, s\<lparr>pool := rest\<rparr>)"
  by (simp add: Page_ctor_def ExAllocatePoolWithTag_def)

subsection \<open>The call of a handler\<close>

lemma writecr3_fields:
  "cr3 (writecr3 v s) = v"
  "trace (writecr3 v s) = trace s @ [WriteCr3 v]"
  "g_sbpp_breakpoints (writecr3 v s) = g_sbpp_breakpoints s"
  "g_sbpp_last_breakpoint (writecr3 v s) = g_sbpp_last_breakpoint s"
  "ept_data (writecr3 v s) = ept_data s"
  "vmcs (writecr3 v s) = vmcs s"
  "memory (writecr3 v s) = memory s"
  "va_to_pa (writecr3 v s) = va_to_pa s"
  "dbg (writecr3 v s) = dbg s"
  by (simp_all add: writecr3_def)

lemma handler_entry_fields:
  "cr3 (handler_entry guest_cr3 info s) = guest_cr3"
  "trace (handler_entry guest_cr3 info s) =
     trace s @ [WriteCr3 guest_cr3,
                HandlerCall (handler info) (patch_address info) (vmcs s kGuestRsp)]"
  "(handler_entry guest_cr3 info s)\<lparr>cr3 := cr3 s, trace := trace s\<rparr> = s"
  "vmcs (handler_entry guest_cr3 info s) = vmcs s"
  by (simp_all add: handler_entry_def writecr3_def UtilVmRead_def Let_def)

lemma call_handler_returns:
  assumes "handlers (handler info) info gp_regs (vmcs s kGuestRsp)
             (handler_entry guest_cr3 info s) = Inr s1"
  shows "call_handler handlers info gp_regs guest_cr3 vmm_cr3 s = Inr (writecr3 vmm_cr3 s1)"
  using assms
  by (simp add: call_handler_def Let_def UtilVmRead_def handler_entry_fields ebind_def)

text \<open>The pre handler of the examples finds the post record of thread 4 and overwrites its parameters.\<close>

lemma ex_dup: "SbppFindDuplicatedPostPatchInfo 0x5010 4 (handler_entry 0x1ab000 ex_pre ex_state) = Inr (Some 1)"
  by (simp add: SbppFindDuplicatedPostPatchInfo_def deref_breakpoints_def ebind_def handler_entry_def
      writecr3_def Let_def ex_state_def ex_pre_def ex_post_def PAGE_ALIGN_def PAGE_SIZE_def)

lemma ex_handler_run:
  "ex_handlers 1 ex_pre 0 0x7ff0 (handler_entry 0x1ab000 ex_pre ex_state)
     = Inr ((handler_entry 0x1ab000 ex_pre ex_state)
              \<lparr>g_sbpp_breakpoints := Some [ex_pre, ex_post\<lparr>parameters := [0x7ff0]\<rparr>]\<rparr>)"
proof -
  have g: "g_sbpp_breakpoints (handler_entry 0x1ab000 ex_pre ex_state) = Some [ex_pre, ex_post]"
    "current_thread_id (handler_entry 0x1ab000 ex_pre ex_state) = 4"
    by (simp_all add: handler_entry_def writecr3_def Let_def ex_state_def)
  show ?thesis
    by (simp add: ex_handlers_def SbpCreateAndEnablePostBreakpoint_def PsGetCurrentThreadId_def
        g ex_dup ebind_def)
qed


subsection \<open>Erasing the record that was found by its address\<close>

lemma entry_all_updated:
  "(e::EptCommonEntry)\<lparr>execute_access := x, write_access := w, read_access := r,
                        physial_address := p\<rparr>
     = \<lparr>read_access = r, write_access = w, execute_access = x, physial_address = p\<rparr>"
  by (cases e) simp

lemma find_append_Some: "find P xs = Some x \<Longrightarrow> find P (xs @ ys) = Some x"
  by (induction xs) (auto split: if_splits)

lemma SbppDeleteBreakpointFromList_found:
  assumes "g_sbpp_breakpoints s = Some ptrs"
      and "find (\<lambda>r. patch_address r = patch_address info) ptrs = Some info"
  shows "SbppDeleteBreakpointFromList info s
           = Inr (s\<lparr>g_sbpp_breakpoints := Some (remove1 info ptrs)\<rparr>)"
proof -
  let ?Q = "\<lambda>info2. patch_address info = patch_address info2
                    \<and> target_tid info = target_tid info2"
  have "\<forall>y\<in>set ptrs. ?Q y \<longrightarrow> patch_address y = patch_address info" by simp
  with erase_find_if_remove1 [OF assms(2), of ?Q]
  obtain i where "find_if ?Q ptrs = Some i" "erase i ptrs = remove1 info ptrs" by auto
  with assms(1) show ?thesis
    by (simp add: SbppDeleteBreakpointFromList_def deref_breakpoints_def ebind_def)
qed

subsection \<open>What the breakpoint exit returns\<close>

lemma byte_offset_mod: "BYTE_OFFSET a = a mod 4096"
  unfolding BYTE_OFFSET_def PAGE_SIZE_def
  using word_mod_2p_is_mask [of 12 a] by (simp add: mask_eq_decr_exp)

lemma SbppDeleteBreakpointFromList_returns:
  assumes "g_sbpp_breakpoints s \<noteq> None"
  shows "\<exists>s'. SbppDeleteBreakpointFromList info s = Inr s' \<and> g_sbpp_breakpoints s' \<noteq> None"
  using assms
  by (auto simp: SbppDeleteBreakpointFromList_def deref_breakpoints_def ebind_def
      split: option.splits)

lemma SbppFindPatchInfoByPage_returns:
  assumes "g_sbpp_breakpoints s \<noteq> None"
  shows "\<exists>r. SbppFindPatchInfoByPage a s = Inr r"
  using assms by (auto simp: SbppFindPatchInfoByPage_find)

lemma spec_not_ours_tracked:
  assumes "g_sbpp_breakpoints s = Some ptrs"
      and "find (\<lambda>r. patch_address r = guest_ip) ptrs = Some info"
  shows "spec_not_ours guest_ip s \<longleftrightarrow> \<not> SbppIsShadowBreakpoint info s"
  using assms by (simp add: spec_not_ours_def SbppIsShadowBreakpoint_def byte_offset_mod)

lemma SbpHandleBreakpoint_value:
  assumes "SbpHandleBreakpoint handlers guest_ip gp_regs s = Inr (b, t)"
  shows "b = (\<not> spec_not_ours guest_ip s) \<and> (\<not> b \<longrightarrow> t = s)"
proof (cases "g_sbpp_breakpoints s")
  case None
  with assms show ?thesis
    by (simp add: SbpHandleBreakpoint_inactive spec_not_ours_def)
next
  case (Some ptrs)
  show ?thesis
  proof (cases "find (\<lambda>r. patch_address r = guest_ip) ptrs")
    case None
    with assms Some show ?thesis
      by (simp add: SbpHandleBreakpoint_untracked spec_not_ours_def)
  next
    case (Some info)
    note tr = SbpHandleBreakpoint_tracked [OF \<open>g_sbpp_breakpoints s = Some ptrs\<close> Some]
    note sp = spec_not_ours_tracked [OF \<open>g_sbpp_breakpoints s = Some ptrs\<close> Some]
    show ?thesis
    proof (cases "SbppIsShadowBreakpoint info s")
      case False
      with assms have "\<not> b" "t = s" by (simp_all add: tr)
      moreover from False sp have "spec_not_ours guest_ip s" by simp
      ultimately show ?thesis by simp
    next
      case True
      with assms have "b = True"
        by (auto simp: tr ebind_def split: if_splits sum.splits)
      with True sp show ?thesis by simp
    qed
  qed
qed

subsection \<open>Pages, offsets and the construction of a record\<close>

lemma page_split: "PAGE_ALIGN a + BYTE_OFFSET a = a"
proof -
  have "PAGE_ALIGN a + BYTE_OFFSET a = PAGE_ALIGN a OR BYTE_OFFSET a"
    unfolding PAGE_ALIGN_def BYTE_OFFSET_def
    by (rule disjunctive_add_eq_or) (rule bit_eqI, simp add: bit_simps)
  also have "\<dots> = a"
    unfolding PAGE_ALIGN_def BYTE_OFFSET_def
    by (rule bit_eqI) (auto simp: bit_simps)
  finally show ?thesis .
qed

lemma byte_offset_lt: "BYTE_OFFSET a < PAGE_SIZE"
proof -
  have "a AND 0xFFF \<le> 0xFFF" by (rule word_and_le1)
  then show ?thesis
    unfolding BYTE_OFFSET_def PAGE_SIZE_def by simp unat_arith
qed

lemma pages_apart_outside:
  assumes "pages_apart p q" "off < PAGE_SIZE"
  shows "\<not> (p + off - q < PAGE_SIZE)"
  using assms unfolding pages_apart_def PAGE_SIZE_def by unat_arith

lemma pages_apart_ne:
  assumes "pages_apart p q" "i < PAGE_SIZE" "j < PAGE_SIZE"
  shows "p + i \<noteq> q + j"
proof
  assume "p + i = q + j"
  then have "p + i - q = j" by simp
  with pages_apart_outside [OF assms(1,2)] assms(3) show False by simp
qed

lemma pages_apart_sym: "pages_apart p q \<Longrightarrow> pages_apart q p"
  by (simp add: pages_apart_def)

lemma inside_page: "off < PAGE_SIZE \<Longrightarrow> p + off - p < PAGE_SIZE"
  by simp

lemma SbppCreateBreakpoint_reuse:
  assumes "g_sbpp_breakpoints s = Some ptrs"
      and "find (\<lambda>r. PAGE_ALIGN (patch_address r) = PAGE_ALIGN address) ptrs = Some r"
  shows "SbppCreateBreakpoint address s =
     Inr (make_unique_PatchInformation
            \<lparr>shadow_page_base_for_rw := shadow_page_base_for_rw r,
             shadow_page_base_for_exec := shadow_page_base_for_exec r,
             patch_address := address,
             pa_base_for_rw := UtilPaFromVa s (shadow_page_base_for_rw r),
             pa_base_for_exec := UtilPaFromVa s (shadow_page_base_for_exec r)\<rparr>,
          SbppEmbedBreakpoint (shadow_page_base_for_exec r + BYTE_OFFSET address) s)"
  using assms
  by (simp add: SbppCreateBreakpoint_def SbppFindPatchInfoByPage_find ebind_def
      shadow_pages_for_def)

lemma SbppCreateBreakpoint_fresh:
  assumes "g_sbpp_breakpoints s = Some ptrs"
      and "find (\<lambda>r. PAGE_ALIGN (patch_address r) = PAGE_ALIGN address) ptrs = None"
      and "pool s = rw # ex # rest" "rw \<noteq> 0" "ex \<noteq> 0"
  shows "SbppCreateBreakpoint address s =
     Inr (make_unique_PatchInformation
            \<lparr>shadow_page_base_for_rw := rw,
             shadow_page_base_for_exec := ex,
             patch_address := address,
             pa_base_for_rw := UtilPaFromVa s rw,
             pa_base_for_exec := UtilPaFromVa s ex\<rparr>,
          SbppEmbedBreakpoint (ex + BYTE_OFFSET address)
            (RtlCopyMemory ex (PAGE_ALIGN address) PAGE_SIZE
              (RtlCopyMemory rw (PAGE_ALIGN address) PAGE_SIZE (s\<lparr>pool := rest\<rparr>))))"
proof -
  have p1: "Page_ctor s = Inr (rw, s\<lparr>pool := ex # rest\<rparr>)"
    using assms(3,4) by (simp add: Page_ctor_ok)
  have p2: "Page_ctor (s\<lparr>pool := ex # rest\<rparr>) = Inr (ex, s\<lparr>pool := rest\<rparr>)"
    using assms(5) Page_ctor_ok [of "s\<lparr>pool := ex # rest\<rparr>" ex rest] by simp
  show ?thesis
    using assms(1,2) p1 p2
    by (simp add: SbppCreateBreakpoint_def SbppFindPatchInfoByPage_find ebind_def
        shadow_pages_for_def Let_def UtilPaFromVa_def RtlCopyMemory_def)
qed

lemma embed_memory:
  "memory (SbppEmbedBreakpoint a s) = (memory s)(a := 0xcc)"
  by (simp add: SbppEmbedBreakpoint_def)

lemma copy_memory:
  "memory (RtlCopyMemory dst src n s) x =
     (if x - dst < n then memory s (src + (x - dst)) else memory s x)"
  by (simp add: RtlCopyMemory_def)

lemma fresh_shadow_bytes:
  fixes s :: state
  assumes "pages_apart rw ex" "pages_apart (PAGE_ALIGN address) rw"
  defines "s' \<equiv> SbppEmbedBreakpoint (ex + BYTE_OFFSET address)
            (RtlCopyMemory ex (PAGE_ALIGN address) PAGE_SIZE
              (RtlCopyMemory rw (PAGE_ALIGN address) PAGE_SIZE s))"
  shows "memory s' (ex + BYTE_OFFSET address) = 0xcc"
    and "\<forall>off<PAGE_SIZE. memory s' (rw + off) = memory s (PAGE_ALIGN address + off)"
    and "\<forall>off<PAGE_SIZE. off \<noteq> BYTE_OFFSET address
           \<longrightarrow> memory s' (ex + off) = memory s (PAGE_ALIGN address + off)"
proof -
  show "memory s' (ex + BYTE_OFFSET address) = 0xcc"
    by (simp add: s'_def embed_memory)
  show "\<forall>off<PAGE_SIZE. memory s' (rw + off) = memory s (PAGE_ALIGN address + off)"
  proof (intro allI impI)
    fix off :: "64 word"
    assume off: "off < PAGE_SIZE"
    have 1: "rw + off \<noteq> ex + BYTE_OFFSET address"
      by (rule pages_apart_ne [OF assms(1) off byte_offset_lt])
    have 2: "\<not> (rw + off - ex < PAGE_SIZE)"
      by (rule pages_apart_outside [OF assms(1) off])
    show "memory s' (rw + off) = memory s (PAGE_ALIGN address + off)"
      using 1 2 off by (simp add: s'_def embed_memory copy_memory)
  qed
  show "\<forall>off<PAGE_SIZE. off \<noteq> BYTE_OFFSET address
           \<longrightarrow> memory s' (ex + off) = memory s (PAGE_ALIGN address + off)"
  proof (intro allI impI)
    fix off :: "64 word"
    assume off: "off < PAGE_SIZE" and ne: "off \<noteq> BYTE_OFFSET address"
    have 2: "\<not> (PAGE_ALIGN address + off - rw < PAGE_SIZE)"
      by (rule pages_apart_outside [OF assms(2) off])
    show "memory s' (ex + off) = memory s (PAGE_ALIGN address + off)"
      using 2 off ne by (simp add: s'_def embed_memory copy_memory)
  qed
qed


subsection \<open>One post record per page and thread\<close>

lemma post_unique_by_keys:
  "map post_key (filter (\<lambda>r. type r = kPost) xs)
     = map snd (filter (\<lambda>p. fst p = kPost) (map (\<lambda>r. (type r, post_key r)) xs))"
  by (induction xs) simp_all

lemma post_unique_update:
  assumes "post_unique ptrs" "i < length ptrs"
  shows "post_unique (ptrs[i := (ptrs ! i)\<lparr>parameters := p\<rparr>])"
proof -
  let ?f = "\<lambda>r. (type r, post_key r)"
  have "map ?f (ptrs[i := (ptrs ! i)\<lparr>parameters := p\<rparr>]) = (map ?f ptrs)[i := ?f (ptrs ! i)]"
    by (simp add: map_update post_key_def)
  also have "\<dots> = map ?f ptrs"
    using assms(2) by (simp add: list_update_same_conv)
  finally show ?thesis
    using assms(1) by (simp add: post_unique_def post_unique_by_keys)
qed

lemma post_unique_append:
  assumes "post_unique ptrs" "type rec = kPost"
      and "\<forall>r\<in>set ptrs. \<not> (type r = kPost \<and> post_key r = post_key rec)"
  shows "post_unique (ptrs @ [rec])"
  using assms by (auto simp: post_unique_def)

lemma SbppCreateBreakpoint_returns:
  assumes "g_sbpp_breakpoints s = Some ptrs"
      and "find (\<lambda>r. PAGE_ALIGN (patch_address r) = PAGE_ALIGN address) ptrs \<noteq> None
           \<or> (pool s = rw # ex # rest \<and> rw \<noteq> 0 \<and> ex \<noteq> 0)"
  shows "\<exists>info s1. SbppCreateBreakpoint address s = Inr (info, s1)
           \<and> patch_address info = address
           \<and> g_sbpp_breakpoints s1 = Some ptrs
           \<and> ept_data s1 = ept_data s
           \<and> va_to_pa s1 = va_to_pa s
           \<and> dbg s1 = dbg s
           \<and> g_sbpp_last_breakpoint s1 = g_sbpp_last_breakpoint s
           \<and> vmcs s1 = vmcs s
           \<and> trace s1 = trace s @ [InvalidateAllCaches]
           \<and> pa_base_for_exec info = UtilPaFromVa s (shadow_page_base_for_exec info)
           \<and> pa_base_for_rw info = UtilPaFromVa s (shadow_page_base_for_rw info)"
proof (cases "find (\<lambda>r. PAGE_ALIGN (patch_address r) = PAGE_ALIGN address) ptrs")
  case (Some r)
  show ?thesis
    by (simp add: SbppCreateBreakpoint_reuse [OF assms(1) Some] SbppEmbedBreakpoint_def
        assms(1))
next
  case None
  with assms(2) have p: "pool s = rw # ex # rest" "rw \<noteq> 0" "ex \<noteq> 0" by simp_all
  show ?thesis
    by (simp add: SbppCreateBreakpoint_fresh [OF assms(1) None p] SbppEmbedBreakpoint_def
        RtlCopyMemory_def assms(1))
qed

section \<open>Erasing a record from the registry\<close>

text \<open>
  C10. \<^verbatim>\<open>SbppDeleteBreakpointFromList\<close>: when no stored record has the patch address and
  the thread id of the given record, the call returns and leaves the state as it was; when
  some record has them, the call returns with exactly the first such record, in insertion
  order, taken out of the vector: the records before it and the records after it, matching
  or not, stay in their order.
\<close>

theorem SbppDeleteBreakpointFromList_first_match:
  assumes "g_sbpp_breakpoints s = Some ptrs"
  shows "((\<forall>r\<in>set ptrs. \<not> (patch_address info = patch_address r
                              \<and> target_tid info = target_tid r))
            \<longrightarrow> SbppDeleteBreakpointFromList info s = Inr s)
       \<and> ((\<exists>r\<in>set ptrs. patch_address info = patch_address r
                          \<and> target_tid info = target_tid r)
            \<longrightarrow> (\<exists>i<length ptrs.
                   patch_address info = patch_address (ptrs ! i)
                 \<and> target_tid info = target_tid (ptrs ! i)
                 \<and> (\<forall>j<i. \<not> (patch_address info = patch_address (ptrs ! j)
                               \<and> target_tid info = target_tid (ptrs ! j)))
                 \<and> SbppDeleteBreakpointFromList info s
                     = Inr (s\<lparr>g_sbpp_breakpoints := Some (take i ptrs @ drop (Suc i) ptrs)\<rparr>)))"
proof (intro conjI impI)
  let ?P = "\<lambda>info2. patch_address info = patch_address info2
                    \<and> target_tid info = target_tid info2"
  assume "\<forall>r\<in>set ptrs. \<not> ?P r"
  then have "find_if ?P ptrs = None" by (simp add: find_if_None)
  with assms show "SbppDeleteBreakpointFromList info s = Inr s"
    by (simp add: SbppDeleteBreakpointFromList_def deref_breakpoints_def ebind_def)
next
  let ?P = "\<lambda>info2. patch_address info = patch_address info2
                    \<and> target_tid info = target_tid info2"
  assume "\<exists>r\<in>set ptrs. ?P r"
  then obtain i where i: "find_if ?P ptrs = Some i"
    using find_if_exists [of ptrs ?P] by blast
  from find_if_Some [OF i] have props: "i < length ptrs" "?P (ptrs ! i)"
    "\<forall>j<i. \<not> ?P (ptrs ! j)" by auto
  from assms i have "SbppDeleteBreakpointFromList info s
      = Inr (s\<lparr>g_sbpp_breakpoints := Some (take i ptrs @ drop (Suc i) ptrs)\<rparr>)"
    by (simp add: SbppDeleteBreakpointFromList_def deref_breakpoints_def ebind_def erase_def)
  with props show "\<exists>i<length ptrs.
       patch_address info = patch_address (ptrs ! i)
     \<and> target_tid info = target_tid (ptrs ! i)
     \<and> (\<forall>j<i. \<not> (patch_address info = patch_address (ptrs ! j)
                   \<and> target_tid info = target_tid (ptrs ! j)))
     \<and> SbppDeleteBreakpointFromList info s
         = Inr (s\<lparr>g_sbpp_breakpoints := Some (take i ptrs @ drop (Suc i) ptrs)\<rparr>)"
    by blast
qed

text \<open>
  The vector holds the pre record, the post record of thread 4 and a second record with
  the post record's address and thread: erasing the post record takes out the middle one
  only. Erasing a record of thread 9 changes nothing.
\<close>

theorem SbppDeleteBreakpointFromList_first_match_witness:
  "SbppDeleteBreakpointFromList ex_post
       (ex_state\<lparr>g_sbpp_breakpoints := Some [ex_pre, ex_post, ex_post\<lparr>parameters := [7]\<rparr>]\<rparr>)
     = Inr (ex_state\<lparr>g_sbpp_breakpoints := Some [ex_pre, ex_post\<lparr>parameters := [7]\<rparr>]\<rparr>)
   \<and> SbppDeleteBreakpointFromList (ex_post\<lparr>target_tid := 9\<rparr>) ex_state = Inr ex_state"
proof -
  let ?s = "ex_state\<lparr>g_sbpp_breakpoints := Some [ex_pre, ex_post, ex_post\<lparr>parameters := [7]\<rparr>]\<rparr>"
  have g: "g_sbpp_breakpoints ?s = Some [ex_pre, ex_post, ex_post\<lparr>parameters := [7]\<rparr>]"
    by simp
  have g': "g_sbpp_breakpoints ex_state = Some [ex_pre, ex_post]"
    by (simp add: ex_state_def)
  let ?L = "[ex_pre, ex_post, ex_post\<lparr>parameters := [7]\<rparr>]"
  have ante: "\<exists>r\<in>set ?L. patch_address ex_post = patch_address r
                        \<and> target_tid ex_post = target_tid r"
    by simp
  from SbppDeleteBreakpointFromList_first_match [OF g, of ex_post] ante
  obtain i where i: "i < length ?L"
      "patch_address ex_post = patch_address (?L ! i)"
      "\<forall>j<i. \<not> (patch_address ex_post = patch_address (?L ! j)
                 \<and> target_tid ex_post = target_tid (?L ! j))"
      "SbppDeleteBreakpointFromList ex_post ?s
        = Inr (?s\<lparr>g_sbpp_breakpoints := Some (take i ?L @ drop (Suc i) ?L)\<rparr>)"
    by blast
  have "i \<noteq> 0"
  proof
    assume "i = 0"
    with i(2) show False by (simp add: ex_pre_def ex_post_def)
  qed
  moreover have "i \<noteq> 2"
  proof
    assume "i = 2"
    with i(3) have "(1::nat) < 2 \<longrightarrow> \<not> (patch_address ex_post = patch_address (?L ! 1)
                        \<and> target_tid ex_post = target_tid (?L ! 1))"
      by blast
    then show False by simp
  qed
  moreover from i(1) have "i = 0 \<or> i = 1 \<or> i = 2" by auto
  ultimately have "i = 1" by simp
  with i(4) have first: "SbppDeleteBreakpointFromList ex_post ?s
      = Inr (ex_state\<lparr>g_sbpp_breakpoints := Some [ex_pre, ex_post\<lparr>parameters := [7]\<rparr>]\<rparr>)"
    by simp
  from SbppDeleteBreakpointFromList_first_match [OF g', of "ex_post\<lparr>target_tid := 9\<rparr>"]
  have "SbppDeleteBreakpointFromList (ex_post\<lparr>target_tid := 9\<rparr>) ex_state = Inr ex_state"
    by (simp add: ex_pre_def ex_post_def)
  with first show ?thesis by simp
qed

section \<open>One leaf entry per call\<close>

text \<open>
  C6. On an extended page table whose leaf entries all allow execution, each of
  \<^verbatim>\<open>SbppEnablePageShadowingForExec\<close>, \<^verbatim>\<open>SbppEnablePageShadowingForRW\<close> and
  \<^verbatim>\<open>SbppDisablePageShadowing\<close> changes the one leaf entry that maps the
  guest-physical address of the patched page, leaves every other entry and every other
  part of the state as it was, and ends with one global invalidation. After enabling for
  exec the entry has exec=1, read=0, write=0 and the frame of the exec shadow; after
  enabling for read/write it has exec=1, read=1, write=1 and the frame of the read/write
  shadow; after disabling it has all three permissions and the frame of the patched page
  itself. Each of the three, and the arming and disarming of the monitor trap flag, leaves
  a page table whose leaf entries all allow execution.
\<close>

theorem shadow_engine_entry_permissions:
  assumes "ept_all_executable s"
  shows "(\<forall>k'. k' \<noteq> EptGetEptPtEntry (UtilPaFromVa s (patch_address info))
        \<longrightarrow> ept_data (SbppEnablePageShadowingForExec info s) k' = ept_data s k'
          \<and> ept_data (SbppEnablePageShadowingForRW info s) k' = ept_data s k')
   \<and> (\<forall>k'. k' \<noteq> EptGetEptPtEntry (UtilPaFromVa s (PAGE_ALIGN (patch_address info)))
        \<longrightarrow> ept_data (SbppDisablePageShadowing info s) k' = ept_data s k')
   \<and> ept_data (SbppEnablePageShadowingForExec info s)
         (EptGetEptPtEntry (UtilPaFromVa s (patch_address info)))
       = \<lparr>read_access = False, write_access = False, execute_access = True,
          physial_address = UtilPfnFromPa (pa_base_for_exec info)\<rparr>
   \<and> ept_data (SbppEnablePageShadowingForRW info s)
         (EptGetEptPtEntry (UtilPaFromVa s (patch_address info)))
       = \<lparr>read_access = True, write_access = True, execute_access = True,
          physial_address = UtilPfnFromPa (pa_base_for_rw info)\<rparr>
   \<and> ept_data (SbppDisablePageShadowing info s)
         (EptGetEptPtEntry (UtilPaFromVa s (PAGE_ALIGN (patch_address info))))
       = \<lparr>read_access = True, write_access = True, execute_access = True,
          physial_address = UtilPfnFromPa (UtilPaFromVa s (PAGE_ALIGN (patch_address info)))\<rparr>
   \<and> trace (SbppEnablePageShadowingForExec info s) = trace s @ [InveptAll]
   \<and> trace (SbppEnablePageShadowingForRW info s) = trace s @ [InveptAll]
   \<and> trace (SbppDisablePageShadowing info s) = trace s @ [InveptAll]
   \<and> (SbppEnablePageShadowingForExec info s)\<lparr>ept_data := ept_data s, trace := trace s\<rparr> = s
   \<and> (SbppEnablePageShadowingForRW info s)\<lparr>ept_data := ept_data s, trace := trace s\<rparr> = s
   \<and> (SbppDisablePageShadowing info s)\<lparr>ept_data := ept_data s, trace := trace s\<rparr> = s
   \<and> ept_all_executable (SbppEnablePageShadowingForExec info s)
   \<and> ept_all_executable (SbppEnablePageShadowingForRW info s)
   \<and> ept_all_executable (SbppDisablePageShadowing info s)
   \<and> ept_all_executable (SbppSetMonitorTrapFlag enable s)"
proof -
  have x: "\<And>k. execute_access (ept_data s k) = True"
    using assms by (simp add: ept_all_executable_def)
  have e1: "ept_data (SbppEnablePageShadowingForExec info s)
         (EptGetEptPtEntry (UtilPaFromVa s (patch_address info)))
       = \<lparr>read_access = False, write_access = False, execute_access = True,
          physial_address = UtilPfnFromPa (pa_base_for_exec info)\<rparr>"
    using x [of "EptGetEptPtEntry (UtilPaFromVa s (patch_address info))"]
    by (cases "ept_data s (EptGetEptPtEntry (UtilPaFromVa s (patch_address info)))")
      (simp add: SbppEnablePageShadowingForExec_ept)
  have e2: "ept_data (SbppEnablePageShadowingForRW info s)
         (EptGetEptPtEntry (UtilPaFromVa s (patch_address info)))
       = \<lparr>read_access = True, write_access = True, execute_access = True,
          physial_address = UtilPfnFromPa (pa_base_for_rw info)\<rparr>"
    using x [of "EptGetEptPtEntry (UtilPaFromVa s (patch_address info))"]
    by (cases "ept_data s (EptGetEptPtEntry (UtilPaFromVa s (patch_address info)))")
      (simp add: SbppEnablePageShadowingForRW_ept)
  have e3: "ept_data (SbppDisablePageShadowing info s)
         (EptGetEptPtEntry (UtilPaFromVa s (PAGE_ALIGN (patch_address info))))
       = \<lparr>read_access = True, write_access = True, execute_access = True,
          physial_address = UtilPfnFromPa (UtilPaFromVa s (PAGE_ALIGN (patch_address info)))\<rparr>"
    by (simp add: SbppDisablePageShadowing_ept entry_all_updated)
  have k1: "ept_all_executable (SbppEnablePageShadowingForExec info s)"
    using x by (simp add: ept_all_executable_def SbppEnablePageShadowingForExec_ept)
  have k2: "ept_all_executable (SbppEnablePageShadowingForRW info s)"
    using x by (simp add: ept_all_executable_def SbppEnablePageShadowingForRW_ept)
  have k3: "ept_all_executable (SbppDisablePageShadowing info s)"
    using x by (simp add: ept_all_executable_def SbppDisablePageShadowing_ept)
  have k4: "ept_all_executable (SbppSetMonitorTrapFlag enable s)"
    using x by (simp add: ept_all_executable_def SbppSetMonitorTrapFlag_frame)
  show ?thesis
    using e1 e2 e3 k1 k2 k3 k4
    by (simp add: SbppEnablePageShadowingForExec_ept SbppEnablePageShadowingForRW_ept
        SbppDisablePageShadowing_ept engine_trace engine_only_ept_and_trace)
qed

text \<open>
  On the example state, whose entries all allow execution, the pre record at 0x5008 has
  the guest-physical page frame 0x105: that entry changes, the entry of frame 0x106 does
  not.
\<close>

theorem shadow_engine_entry_permissions_witness:
  "ept_all_executable ex_state
   \<and> ept_data (SbppEnablePageShadowingForExec ex_pre ex_state) 0x105
     = \<lparr>read_access = False, write_access = False, execute_access = True,
        physial_address = 0x120\<rparr>
   \<and> ept_data (SbppEnablePageShadowingForRW ex_pre ex_state) 0x105
     = \<lparr>read_access = True, write_access = True, execute_access = True,
        physial_address = 0x110\<rparr>
   \<and> ept_data (SbppDisablePageShadowing ex_pre ex_state) 0x105
     = \<lparr>read_access = True, write_access = True, execute_access = True,
        physial_address = 0x105\<rparr>
   \<and> ept_data (SbppEnablePageShadowingForExec ex_pre ex_state) 0x106 = ex_entry 0x106
   \<and> ept_data (SbppEnablePageShadowingForRW ex_pre ex_state) 0x106 = ex_entry 0x106
   \<and> ept_data (SbppDisablePageShadowing ex_pre ex_state) 0x106 = ex_entry 0x106
   \<and> trace (SbppEnablePageShadowingForExec ex_pre ex_state) = [InveptAll]
   \<and> ept_all_executable (SbppEnablePageShadowingForExec ex_pre ex_state)"
proof -
  have h: "ept_all_executable ex_state"
    by (simp add: ept_all_executable_def ex_state_def ex_entry_def)
  have k: "EptGetEptPtEntry (UtilPaFromVa ex_state (patch_address ex_pre)) = 0x105"
    "EptGetEptPtEntry (UtilPaFromVa ex_state (PAGE_ALIGN (patch_address ex_pre))) = 0x105"
    by (simp_all add: EptGetEptPtEntry_def UtilPfnFromPa_def UtilPaFromVa_def ex_state_def
        ex_pre_def PAGE_ALIGN_def PAGE_SIZE_def)
  have e: "ept_data ex_state = ex_entry" "trace ex_state = []"
    by (simp_all add: ex_state_def)
  have p: "UtilPfnFromPa (pa_base_for_exec ex_pre) = 0x120"
    "UtilPfnFromPa (pa_base_for_rw ex_pre) = 0x110"
    "UtilPfnFromPa (UtilPaFromVa ex_state (PAGE_ALIGN (patch_address ex_pre))) = 0x105"
    by (simp_all add: UtilPfnFromPa_def UtilPaFromVa_def ex_state_def
        ex_pre_def PAGE_ALIGN_def PAGE_SIZE_def)
  have ne: "(0x106 :: 64 word) \<noteq> 0x105" by simp
  from shadow_engine_entry_permissions [OF h, of ex_pre] ne h show ?thesis
    unfolding k e p by auto
qed

section \<open>The monitor trap flag exit\<close>





section \<open>What stops the host\<close>

text \<open>
  The four conditions under which the file means to stop the host, in general. A shadow
  page whose allocation fails (\<^verbatim>\<open>Page::Page\<close>, and with it the construction of a record
  on a page that has no record yet) and a tracked breakpoint hit on the exec shadow above
  dispatch level call the bug check. The two conditions on the last-event slot are
  guarded by \<^verbatim>\<open>NT_ASSERT\<close>: the store into an occupied slot stops where assertions are
  compiled in and returns where they are not; the monitor trap flag exit with an empty
  slot stops in either build, on the assertion or on the null pointer.
\<close>

lemma stop_conditions:
  "(Page_ctor s = Inl (BugCheck kCritialPoolAllocationFailure)
       \<longleftrightarrow> (pool s = [] \<or> hd (pool s) = 0))
   \<and> (g_sbpp_breakpoints s = Some ptrs
        \<and> find (\<lambda>r. PAGE_ALIGN (patch_address r) = PAGE_ALIGN address) ptrs = None
        \<and> (pool s = [] \<or> hd (pool s) = 0 \<or> tl (pool s) = [] \<or> hd (tl (pool s)) = 0)
      \<longrightarrow> SbppCreateBreakpoint address s = Inl (BugCheck kCritialPoolAllocationFailure))
   \<and> (g_sbpp_breakpoints s = Some ptrs
        \<and> find (\<lambda>r. patch_address r = guest_ip) ptrs = Some info
        \<and> memory s (shadow_page_base_for_rw info + BYTE_OFFSET (patch_address info)) \<noteq> 0xcc
        \<and> irql s > DISPATCH_LEVEL
      \<longrightarrow> SbpHandleBreakpoint handlers guest_ip gp_regs s = Inl (BugCheck kUnspecified))
   \<and> (g_sbpp_last_breakpoint s \<noteq> None
      \<longrightarrow> SbppSaveLastPatchInfo info s =
            (if dbg s then Inl AssertionFailure
             else Inr (s\<lparr>g_sbpp_last_breakpoint := Some info\<rparr>)))
   \<and> (g_sbpp_last_breakpoint s = None
      \<longrightarrow> SbppRestoreLastPatchInfo s =
            (if dbg s then Inl AssertionFailure else Inr (None, s))
        \<and> SbpHandleMonitorTrapFlag s =
            Inl (if dbg s then AssertionFailure else NullDereference))"
proof (intro conjI impI)
  show "Page_ctor s = Inl (BugCheck kCritialPoolAllocationFailure)
       \<longleftrightarrow> (pool s = [] \<or> hd (pool s) = 0)"
    by (rule Page_ctor_fails)
next
  assume a: "g_sbpp_breakpoints s = Some ptrs
        \<and> find (\<lambda>r. PAGE_ALIGN (patch_address r) = PAGE_ALIGN address) ptrs = None
        \<and> (pool s = [] \<or> hd (pool s) = 0 \<or> tl (pool s) = [] \<or> hd (tl (pool s)) = 0)"
  then have look: "SbppFindPatchInfoByPage address s = Inr None"
    by (simp add: SbppFindPatchInfoByPage_find)
  have "shadow_pages_for address None s = Inl (BugCheck kCritialPoolAllocationFailure)"
  proof (cases "pool s = [] \<or> hd (pool s) = 0")
    case True
    then have "Page_ctor s = Inl (BugCheck kCritialPoolAllocationFailure)"
      by (simp add: Page_ctor_fails)
    then show ?thesis by (simp add: shadow_pages_for_def ebind_def)
  next
    case False
    then obtain p rest where p: "pool s = p # rest" "p \<noteq> 0"
      by (cases "pool s") auto
    with a False have "rest = [] \<or> hd rest = 0" by auto
    then have "Page_ctor (s\<lparr>pool := rest\<rparr>) = Inl (BugCheck kCritialPoolAllocationFailure)"
      by (simp add: Page_ctor_fails)
    with Page_ctor_ok [OF p] show ?thesis by (simp add: shadow_pages_for_def ebind_def)
  qed
  with look show "SbppCreateBreakpoint address s = Inl (BugCheck kCritialPoolAllocationFailure)"
    by (simp add: SbppCreateBreakpoint_def ebind_def)
next
  assume "g_sbpp_breakpoints s = Some ptrs
        \<and> find (\<lambda>r. patch_address r = guest_ip) ptrs = Some info
        \<and> memory s (shadow_page_base_for_rw info + BYTE_OFFSET (patch_address info)) \<noteq> 0xcc
        \<and> irql s > DISPATCH_LEVEL"
  then show "SbpHandleBreakpoint handlers guest_ip gp_regs s = Inl (BugCheck kUnspecified)"
    by (simp add: SbpHandleBreakpoint_tracked SbppIsShadowBreakpoint_def)
next
  assume "g_sbpp_last_breakpoint s \<noteq> None"
  then show "SbppSaveLastPatchInfo info s =
            (if dbg s then Inl AssertionFailure
             else Inr (s\<lparr>g_sbpp_last_breakpoint := Some info\<rparr>))"
    by (simp add: SbppSaveLastPatchInfo_def)
next
  assume n: "g_sbpp_last_breakpoint s = None"
  then have "s\<lparr>g_sbpp_last_breakpoint := None\<rparr> = s" by simp
  with n show "SbppRestoreLastPatchInfo s =
            (if dbg s then Inl AssertionFailure else Inr (None, s))"
    by (simp add: SbppRestoreLastPatchInfo_def Let_def)
  then show "SbpHandleMonitorTrapFlag s =
            Inl (if dbg s then AssertionFailure else NullDereference)"
    by (simp add: SbpHandleMonitorTrapFlag_def ebind_def)
qed


text \<open>
  C8. The claim that each of the four conditions stops the host, on the examples. Three
  do: an empty pool and a failing second allocation bug-check, a hit at 0x5008 at
  interrupt level 3 bug-checks, and the monitor trap flag exit with nothing pending stops
  in a checked and in a free build. The store into an occupied slot stops in a checked
  build only. In a free build, while the pre record is the last event, the store of the
  post record returns with the slot overwritten, and so does the whole breakpoint exit of
  thread 9 at 0x5010, which arms the monitor trap flag a second time and returns true:
  the code goes on where its own assertion \<^verbatim>\<open>NT_ASSERT(!g_sbpp_last_breakpoint)\<close> says
  it must not.
\<close>

theorem occupied_slot_store_in_free_build:
  "Page_ctor (ex_state\<lparr>pool := []\<rparr>) = Inl (BugCheck kCritialPoolAllocationFailure)
   \<and> SbppCreateBreakpoint 0x9000 (ex_state\<lparr>pool := [0x30000, 0]\<rparr>)
       = Inl (BugCheck kCritialPoolAllocationFailure)
   \<and> SbpHandleBreakpoint ex_handlers 0x5008 0 (ex_state\<lparr>irql := 3\<rparr>)
       = Inl (BugCheck kUnspecified)
   \<and> SbpHandleMonitorTrapFlag ex_state = Inl AssertionFailure
   \<and> SbpHandleMonitorTrapFlag (ex_state\<lparr>dbg := False\<rparr>) = Inl NullDereference
   \<and> SbppSaveLastPatchInfo ex_post ex_stepping = Inl AssertionFailure
   \<and> g_sbpp_last_breakpoint (ex_stepping\<lparr>dbg := False\<rparr>) = Some ex_pre
   \<and> SbppSaveLastPatchInfo ex_post (ex_stepping\<lparr>dbg := False\<rparr>)
       = Inr (ex_stepping\<lparr>dbg := False, g_sbpp_last_breakpoint := Some ex_post\<rparr>)
   \<and> (\<exists>s'. SbpHandleBreakpoint ex_handlers 0x5010 0
               (ex_stepping\<lparr>dbg := False, current_thread_id := 9\<rparr>) = Inr (True, s')
         \<and> g_sbpp_last_breakpoint s' = Some ex_post)"
proof -
  have 1: "Page_ctor (ex_state\<lparr>pool := []\<rparr>) = Inl (BugCheck kCritialPoolAllocationFailure)"
    using stop_conditions [where s = "ex_state\<lparr>pool := []\<rparr>"] by simp
  have g: "g_sbpp_breakpoints (ex_state\<lparr>pool := [0x30000, 0]\<rparr>) = Some [ex_pre, ex_post]"
      "g_sbpp_breakpoints (ex_state\<lparr>irql := 3\<rparr>) = Some [ex_pre, ex_post]"
    by (simp_all add: ex_state_def)
  have f: "find (\<lambda>r. PAGE_ALIGN (patch_address r) = PAGE_ALIGN 0x9000) [ex_pre, ex_post] = None"
      "find (\<lambda>r. patch_address r = 0x5008) [ex_pre, ex_post] = Some ex_pre"
      "find (\<lambda>r. patch_address r = 0x5010) [ex_pre, ex_post] = Some ex_post"
    by (simp_all add: ex_pre_def ex_post_def PAGE_ALIGN_def PAGE_SIZE_def)
  have b: "memory (ex_state\<lparr>irql := 3\<rparr>)
        (shadow_page_base_for_rw ex_pre + BYTE_OFFSET (patch_address ex_pre)) \<noteq> 0xcc"
      "irql (ex_state\<lparr>irql := 3\<rparr>) > DISPATCH_LEVEL"
    by (simp_all add: ex_state_def ex_pre_def BYTE_OFFSET_def PAGE_SIZE_def DISPATCH_LEVEL_def)
  have 2: "SbppCreateBreakpoint 0x9000 (ex_state\<lparr>pool := [0x30000, 0]\<rparr>)
       = Inl (BugCheck kCritialPoolAllocationFailure)"
    using stop_conditions [where s = "ex_state\<lparr>pool := [0x30000, 0]\<rparr>"
        and ptrs = "[ex_pre, ex_post]" and address = "0x9000"]
      g(1) f(1) by simp
  have 3: "SbpHandleBreakpoint ex_handlers 0x5008 0 (ex_state\<lparr>irql := 3\<rparr>)
       = Inl (BugCheck kUnspecified)"
    using stop_conditions [where s = "ex_state\<lparr>irql := 3\<rparr>" and ptrs = "[ex_pre, ex_post]"
        and guest_ip = "0x5008" and info = ex_pre and handlers = ex_handlers
        and gp_regs = 0] g(2) f(2) b by blast
  have 4: "SbpHandleMonitorTrapFlag ex_state = Inl AssertionFailure"
    using stop_conditions [where s = ex_state] by (simp add: ex_state_def)
  have 5: "SbpHandleMonitorTrapFlag (ex_state\<lparr>dbg := False\<rparr>) = Inl NullDereference"
    using stop_conditions [where s = "ex_state\<lparr>dbg := False\<rparr>"] by (simp add: ex_state_def)
  have 6: "SbppSaveLastPatchInfo ex_post ex_stepping = Inl AssertionFailure"
    using stop_conditions [where s = ex_stepping and info = ex_post]
    by (simp add: ex_stepping_def ex_state_def)
  have 7: "g_sbpp_last_breakpoint (ex_stepping\<lparr>dbg := False\<rparr>) = Some ex_pre"
    by (simp add: ex_stepping_def)
  have 8: "SbppSaveLastPatchInfo ex_post (ex_stepping\<lparr>dbg := False\<rparr>)
       = Inr (ex_stepping\<lparr>dbg := False, g_sbpp_last_breakpoint := Some ex_post\<rparr>)"
    by (simp add: SbppSaveLastPatchInfo_def ex_stepping_def)
  let ?u = "ex_stepping\<lparr>dbg := False, current_thread_id := 9\<rparr>"
  have gu: "g_sbpp_breakpoints ?u = Some [ex_pre, ex_post]"
    by (simp add: ex_stepping_def ex_state_def)
  have free: "dbg ?u \<longrightarrow> g_sbpp_last_breakpoint ?u = None" by simp
  from step_over_result [OF free, of ex_post]
  obtain s' where s': "step_over ex_post ?u = Inr s'" by blast
  have sb: "SbppIsShadowBreakpoint ex_post ?u" "(DISPATCH_LEVEL < irql ?u) = False"
      "type ex_post = kPost" "target_tid ex_post \<noteq> current_thread_id ?u"
    by (simp_all add: SbppIsShadowBreakpoint_def ex_stepping_def ex_state_def ex_post_def
        BYTE_OFFSET_def PAGE_SIZE_def DISPATCH_LEVEL_def)
  have run: "SbpHandleBreakpoint ex_handlers 0x5010 0 ?u = Inr (True, s')"
    using sb s' by (simp add: SbpHandleBreakpoint_tracked [OF gu f(3)] ebind_def)
  from step_over_fields(1) [OF s'] run
  have 9: "\<exists>s'. SbpHandleBreakpoint ex_handlers 0x5010 0 ?u = Inr (True, s')
         \<and> g_sbpp_last_breakpoint s' = Some ex_post"
    by blast
  from 1 2 3 4 5 6 7 8 9 show ?thesis by blast
qed


section \<open>The EPT violation exit\<close>

text \<open>
  C4. \<^verbatim>\<open>SbpHandleEptViolation\<close> at the faulting address: with no registry, or with no
  record whose address is on the page of the faulting address, the call returns and the
  state is as it was. Otherwise, for the first record on that page (and with the slot free
  where the assertion on it is compiled in), the call returns with the leaf entry of the
  record's page on the read/write shadow with read and write allowed, the monitor trap flag
  armed, the guest's interrupt flag saved and cleared, and the record in the last-event
  slot; the registry is as it was.
\<close>

theorem SbpHandleEptViolation_cases:
  "((g_sbpp_breakpoints s = None
       \<or> (\<exists>ptrs. g_sbpp_breakpoints s = Some ptrs
             \<and> (\<forall>r\<in>set ptrs. PAGE_ALIGN (patch_address r) \<noteq> PAGE_ALIGN fault_va)))
      \<longrightarrow> SbpHandleEptViolation fault_va s = Inr s)
   \<and> (g_sbpp_breakpoints s = Some ptrs
        \<and> find (\<lambda>r. PAGE_ALIGN (patch_address r) = PAGE_ALIGN fault_va) ptrs = Some info
        \<and> (dbg s \<longrightarrow> g_sbpp_last_breakpoint s = None)
      \<longrightarrow> (\<exists>s'. SbpHandleEptViolation fault_va s = Inr s'
             \<and> ept_data s' =
                 (ept_data s)(EptGetEptPtEntry (UtilPaFromVa s (patch_address info)) :=
                   (ept_data s (EptGetEptPtEntry (UtilPaFromVa s (patch_address info))))
                     \<lparr>write_access := True, read_access := True,
                      physial_address := UtilPfnFromPa (pa_base_for_rw info)\<rparr>)
             \<and> bit (vmcs s' kCpuBasedVmExecControl) monitor_trap_flag
             \<and> \<not> bit (vmcs s' kGuestRflags) intf
             \<and> g_sbpp_previouse_guest_interrupt_flag s' = bit (vmcs s kGuestRflags) intf
             \<and> g_sbpp_last_breakpoint s' = Some info
             \<and> g_sbpp_breakpoints s' = g_sbpp_breakpoints s
             \<and> trace s' = trace s @ [InveptAll,
                   VmWrite kCpuBasedVmExecControl (vmcs s' kCpuBasedVmExecControl),
                   VmWrite kGuestRflags (vmcs s' kGuestRflags)]))"
proof (intro conjI impI)
  assume "g_sbpp_breakpoints s = None
       \<or> (\<exists>ptrs. g_sbpp_breakpoints s = Some ptrs
             \<and> (\<forall>r\<in>set ptrs. PAGE_ALIGN (patch_address r) \<noteq> PAGE_ALIGN fault_va))"
  then show "SbpHandleEptViolation fault_va s = Inr s"
  proof
    assume "g_sbpp_breakpoints s = None"
    then show ?thesis by (simp add: SbpHandleEptViolation_def SbppIsSbpActive_def)
  next
    assume "\<exists>ptrs. g_sbpp_breakpoints s = Some ptrs
             \<and> (\<forall>r\<in>set ptrs. PAGE_ALIGN (patch_address r) \<noteq> PAGE_ALIGN fault_va)"
    then obtain ptrs where p: "g_sbpp_breakpoints s = Some ptrs"
        "\<forall>r\<in>set ptrs. PAGE_ALIGN (patch_address r) \<noteq> PAGE_ALIGN fault_va" by blast
    from p(2) have "find (\<lambda>r. PAGE_ALIGN (patch_address r) = PAGE_ALIGN fault_va) ptrs = None"
      by (simp add: find_None_iff)
    with p(1) show ?thesis
      by (simp add: SbpHandleEptViolation_def SbppIsSbpActive_def
          SbppFindPatchInfoByPage_find ebind_def)
  qed
next
  assume a: "g_sbpp_breakpoints s = Some ptrs
        \<and> find (\<lambda>r. PAGE_ALIGN (patch_address r) = PAGE_ALIGN fault_va) ptrs = Some info
        \<and> (dbg s \<longrightarrow> g_sbpp_last_breakpoint s = None)"
  then have run: "SbpHandleEptViolation fault_va s = step_over info s"
    by (simp add: SbpHandleEptViolation_def SbppIsSbpActive_def
        SbppFindPatchInfoByPage_find ebind_def)
  from a step_over_result [of s info] obtain s' where s': "step_over info s = Inr s'"
    by blast
  from step_over_fields [OF s'] run s'
  show "\<exists>s'. SbpHandleEptViolation fault_va s = Inr s'
             \<and> ept_data s' =
                 (ept_data s)(EptGetEptPtEntry (UtilPaFromVa s (patch_address info)) :=
                   (ept_data s (EptGetEptPtEntry (UtilPaFromVa s (patch_address info))))
                     \<lparr>write_access := True, read_access := True,
                      physial_address := UtilPfnFromPa (pa_base_for_rw info)\<rparr>)
             \<and> bit (vmcs s' kCpuBasedVmExecControl) monitor_trap_flag
             \<and> \<not> bit (vmcs s' kGuestRflags) intf
             \<and> g_sbpp_previouse_guest_interrupt_flag s' = bit (vmcs s kGuestRflags) intf
             \<and> g_sbpp_last_breakpoint s' = Some info
             \<and> g_sbpp_breakpoints s' = g_sbpp_breakpoints s
             \<and> trace s' = trace s @ [InveptAll,
                   VmWrite kCpuBasedVmExecControl (vmcs s' kCpuBasedVmExecControl),
                   VmWrite kGuestRflags (vmcs s' kGuestRflags)]"
    by simp
qed

text \<open>
  On the example state: a fault at 0x5123 with no registry and a fault at 0x9123, a page
  without records, change nothing; a fault at 0x5123 shows the read/write shadow, frame
  0x110, and leaves the pre record as the last event.
\<close>

theorem SbpHandleEptViolation_cases_witness:
  "SbpHandleEptViolation 0x5123 (ex_state\<lparr>g_sbpp_breakpoints := None\<rparr>)
     = Inr (ex_state\<lparr>g_sbpp_breakpoints := None\<rparr>)
   \<and> SbpHandleEptViolation 0x9123 ex_state = Inr ex_state
   \<and> (\<exists>s'. SbpHandleEptViolation 0x5123 ex_state = Inr s'
         \<and> ept_data s' 0x105
             = \<lparr>read_access = True, write_access = True, execute_access = True,
                physial_address = 0x110\<rparr>
         \<and> bit (vmcs s' kCpuBasedVmExecControl) monitor_trap_flag
         \<and> g_sbpp_last_breakpoint s' = Some ex_pre
         \<and> trace s' = [InveptAll, VmWrite kCpuBasedVmExecControl 0x88000000,
                        VmWrite kGuestRflags 0x2])"
proof -
  have 1: "SbpHandleEptViolation 0x5123 (ex_state\<lparr>g_sbpp_breakpoints := None\<rparr>)
     = Inr (ex_state\<lparr>g_sbpp_breakpoints := None\<rparr>)"
    using SbpHandleEptViolation_cases
      [where s = "ex_state\<lparr>g_sbpp_breakpoints := None\<rparr>" and fault_va = "0x5123"]
    by simp
  have g: "g_sbpp_breakpoints ex_state = Some [ex_pre, ex_post]"
    by (simp add: ex_state_def)
  have far: "\<forall>r\<in>set [ex_pre, ex_post]. PAGE_ALIGN (patch_address r) \<noteq> PAGE_ALIGN 0x9123"
    by (simp add: ex_pre_def ex_post_def PAGE_ALIGN_def PAGE_SIZE_def)
  have 2: "SbpHandleEptViolation 0x9123 ex_state = Inr ex_state"
    using SbpHandleEptViolation_cases [where s = ex_state and fault_va = "0x9123"] g far
    by blast
  have f: "find (\<lambda>r. PAGE_ALIGN (patch_address r) = PAGE_ALIGN 0x5123) [ex_pre, ex_post]
      = Some ex_pre"
    by (simp add: ex_pre_def PAGE_ALIGN_def PAGE_SIZE_def)
  have d: "dbg ex_state \<longrightarrow> g_sbpp_last_breakpoint ex_state = None"
    by (simp add: ex_state_def)
  from SbpHandleEptViolation_cases
      [where s = ex_state and fault_va = "0x5123" and ptrs = "[ex_pre, ex_post]"
         and info = ex_pre] g f d
  obtain s' where s': "SbpHandleEptViolation 0x5123 ex_state = Inr s'"
    "ept_data s' =
       (ept_data ex_state)(EptGetEptPtEntry (UtilPaFromVa ex_state (patch_address ex_pre)) :=
          (ept_data ex_state (EptGetEptPtEntry (UtilPaFromVa ex_state (patch_address ex_pre))))
            \<lparr>write_access := True, read_access := True,
             physial_address := UtilPfnFromPa (pa_base_for_rw ex_pre)\<rparr>)"
    "bit (vmcs s' kCpuBasedVmExecControl) monitor_trap_flag"
    "g_sbpp_last_breakpoint s' = Some ex_pre"
    "trace s' = trace ex_state @ [InveptAll,
        VmWrite kCpuBasedVmExecControl (vmcs s' kCpuBasedVmExecControl),
        VmWrite kGuestRflags (vmcs s' kGuestRflags)]"
    by blast
  have k: "EptGetEptPtEntry (UtilPaFromVa ex_state (patch_address ex_pre)) = 0x105"
    by (simp add: EptGetEptPtEntry_def UtilPfnFromPa_def UtilPaFromVa_def ex_state_def
        ex_pre_def)
  have e: "ept_data s' 0x105
      = \<lparr>read_access = True, write_access = True, execute_access = True,
         physial_address = 0x110\<rparr>"
    unfolding s'(2) k by (simp add: ex_state_def ex_entry_def UtilPfnFromPa_def ex_pre_def)
  have run: "s' = (SbppSetMonitorTrapFlag True (SbppEnablePageShadowingForRW ex_pre ex_state))
              \<lparr>g_sbpp_last_breakpoint := Some ex_pre\<rparr>"
    using s'(1) step_over_result [OF d, of ex_pre] g f
    by (simp add: SbpHandleEptViolation_def SbppIsSbpActive_def
        SbppFindPatchInfoByPage_find ebind_def)
  have v: "vmcs s' kCpuBasedVmExecControl = 0x88000000" "vmcs s' kGuestRflags = 0x2"
    unfolding run
    by (simp_all add: SbppSetMonitorTrapFlag_vmcs engine_frame ex_state_def ex_vmcs_def
        assign_bit_def monitor_trap_flag_def intf_def set_bit_eq_or unset_bit_eq_and_not)
  have t: "trace s' = [InveptAll, VmWrite kCpuBasedVmExecControl 0x88000000,
                        VmWrite kGuestRflags 0x2]"
    unfolding s'(5) v by (simp add: ex_state_def)
  from 1 2 s'(1) e s'(3) s'(4) t show ?thesis by blast
qed


section \<open>The breakpoint exit at a pre record\<close>

text \<open>
  C1. A breakpoint exit at the address of a pre record, with the registry present, the
  byte of the read/write shadow at the patch offset other than 0xcc and the interrupt
  level at most dispatch level. The handler of the record starts in a state whose CR3 is
  the guest's CR3 read from the VMCS, right after that write of CR3. When the handler
  returns (with the last-event slot free where the assertion on it is compiled in),
  \<^verbatim>\<open>SbpHandleBreakpoint\<close> returns true, and what it does after the handler is, in this
  order: the write of the saved CR3, the switch of the leaf entry to the read/write
  shadow with its invalidation, the two VMCS writes that arm the monitor trap flag and
  clear the interrupt flag, and the store of the record in the last-event slot.
\<close>

theorem SbpHandleBreakpoint_pre:
  assumes "g_sbpp_breakpoints s = Some ptrs"
      and "find (\<lambda>r. patch_address r = guest_ip) ptrs = Some info"
      and "type info = kPre"
      and "memory s (shadow_page_base_for_rw info + BYTE_OFFSET guest_ip) \<noteq> 0xcc"
      and "irql s \<le> DISPATCH_LEVEL"
      and "handlers (handler info) info gp_regs (vmcs s kGuestRsp)
             (handler_entry (vmcs s kGuestCr3) info s) = Inr s1"
      and "dbg s1 \<longrightarrow> g_sbpp_last_breakpoint s1 = None"
  shows "cr3 (handler_entry (vmcs s kGuestCr3) info s) = vmcs s kGuestCr3
     \<and> trace (handler_entry (vmcs s kGuestCr3) info s) =
         trace s @ [WriteCr3 (vmcs s kGuestCr3),
                    HandlerCall (handler info) guest_ip (vmcs s kGuestRsp)]
     \<and> (\<exists>s'. SbpHandleBreakpoint handlers guest_ip gp_regs s = Inr (True, s')
           \<and> cr3 s' = cr3 s
           \<and> trace s' = trace s1 @ [WriteCr3 (cr3 s), InveptAll,
                 VmWrite kCpuBasedVmExecControl (vmcs s' kCpuBasedVmExecControl),
                 VmWrite kGuestRflags (vmcs s' kGuestRflags)]
           \<and> ept_data s' =
               (ept_data s1)(EptGetEptPtEntry (UtilPaFromVa s1 guest_ip) :=
                 (ept_data s1 (EptGetEptPtEntry (UtilPaFromVa s1 guest_ip)))
                   \<lparr>write_access := True, read_access := True,
                    physial_address := UtilPfnFromPa (pa_base_for_rw info)\<rparr>)
           \<and> bit (vmcs s' kCpuBasedVmExecControl) monitor_trap_flag
           \<and> \<not> bit (vmcs s' kGuestRflags) intf
           \<and> g_sbpp_last_breakpoint s' = Some info
           \<and> g_sbpp_breakpoints s' = g_sbpp_breakpoints s1
           \<and> SbppSaveLastPatchInfo info
               (SbppSetMonitorTrapFlag True
                 (SbppEnablePageShadowingForRW info (writecr3 (cr3 s) s1))) = Inr s')"
proof -
  from find_Some_P [OF assms(2)] have ip: "patch_address info = guest_ip" by simp
  let ?s2 = "writecr3 (cr3 s) s1"
  have call: "call_handler handlers info gp_regs (vmcs s kGuestCr3) (cr3 s) s = Inr ?s2"
    using assms(6) by (simp add: call_handler_returns)
  have free: "dbg ?s2 \<longrightarrow> g_sbpp_last_breakpoint ?s2 = None"
    using assms(7) by (simp add: writecr3_fields)
  from step_over_result [OF free, of info] obtain s' where s': "step_over info ?s2 = Inr s'"
    by blast
  have run: "SbpHandleBreakpoint handlers guest_ip gp_regs s = Inr (True, s')"
    using assms(3,4,5) call s'
    by (simp add: SbpHandleBreakpoint_tracked [OF assms(1,2)] SbppIsShadowBreakpoint_def ip
        ebind_def)
  note f = step_over_fields [OF s']
  have pa: "UtilPaFromVa ?s2 = UtilPaFromVa s1"
    by (rule ext) (simp add: UtilPaFromVa_def writecr3_fields)
  have "cr3 s' = cr3 s" using f(8) by (simp add: writecr3_fields)
  moreover have "trace s' = trace s1 @ [WriteCr3 (cr3 s), InveptAll,
                 VmWrite kCpuBasedVmExecControl (vmcs s' kCpuBasedVmExecControl),
                 VmWrite kGuestRflags (vmcs s' kGuestRflags)]"
    using f(3) by (simp add: writecr3_fields)
  moreover have "ept_data s' =
               (ept_data s1)(EptGetEptPtEntry (UtilPaFromVa s1 guest_ip) :=
                 (ept_data s1 (EptGetEptPtEntry (UtilPaFromVa s1 guest_ip)))
                   \<lparr>write_access := True, read_access := True,
                    physial_address := UtilPfnFromPa (pa_base_for_rw info)\<rparr>)"
    using f(2) by (simp add: writecr3_fields pa ip)
  moreover have "g_sbpp_breakpoints s' = g_sbpp_breakpoints s1"
    using f(7) by (simp add: writecr3_fields)
  moreover have "SbppSaveLastPatchInfo info
               (SbppSetMonitorTrapFlag True
                 (SbppEnablePageShadowingForRW info (writecr3 (cr3 s) s1))) = Inr s'"
    using s' by (simp add: step_over_def)
  ultimately have "\<exists>s'. SbpHandleBreakpoint handlers guest_ip gp_regs s = Inr (True, s')
           \<and> cr3 s' = cr3 s
           \<and> trace s' = trace s1 @ [WriteCr3 (cr3 s), InveptAll,
                 VmWrite kCpuBasedVmExecControl (vmcs s' kCpuBasedVmExecControl),
                 VmWrite kGuestRflags (vmcs s' kGuestRflags)]
           \<and> ept_data s' =
               (ept_data s1)(EptGetEptPtEntry (UtilPaFromVa s1 guest_ip) :=
                 (ept_data s1 (EptGetEptPtEntry (UtilPaFromVa s1 guest_ip)))
                   \<lparr>write_access := True, read_access := True,
                    physial_address := UtilPfnFromPa (pa_base_for_rw info)\<rparr>)
           \<and> bit (vmcs s' kCpuBasedVmExecControl) monitor_trap_flag
           \<and> \<not> bit (vmcs s' kGuestRflags) intf
           \<and> g_sbpp_last_breakpoint s' = Some info
           \<and> g_sbpp_breakpoints s' = g_sbpp_breakpoints s1
           \<and> SbppSaveLastPatchInfo info
               (SbppSetMonitorTrapFlag True
                 (SbppEnablePageShadowingForRW info (writecr3 (cr3 s) s1))) = Inr s'"
    using run f(1) f(4) f(5) by blast
  then show ?thesis by (simp add: handler_entry_fields ip)
qed

text \<open>
  On the example state a hit at 0x5008 runs the pre handler, which overwrites the
  parameters of the post record of thread 4, and leaves the trace of the six platform
  calls in their order.
\<close>

theorem SbpHandleBreakpoint_pre_witness:
  "\<exists>s'. SbpHandleBreakpoint ex_handlers 0x5008 0 ex_state = Inr (True, s')
      \<and> cr3 s' = 0x1aa000
      \<and> trace s' = [WriteCr3 0x1ab000, HandlerCall 1 0x5008 0x7ff0, WriteCr3 0x1aa000,
                     InveptAll, VmWrite kCpuBasedVmExecControl 0x88000000,
                     VmWrite kGuestRflags 0x2]
      \<and> g_sbpp_last_breakpoint s' = Some ex_pre
      \<and> g_sbpp_breakpoints s' = Some [ex_pre, ex_post\<lparr>parameters := [0x7ff0]\<rparr>]
      \<and> ept_data s' 0x105
          = \<lparr>read_access = True, write_access = True, execute_access = True,
             physial_address = 0x110\<rparr>"
proof -
  let ?s1 = "(handler_entry 0x1ab000 ex_pre ex_state)
              \<lparr>g_sbpp_breakpoints := Some [ex_pre, ex_post\<lparr>parameters := [0x7ff0]\<rparr>]\<rparr>"
  have v: "vmcs ex_state kGuestRsp = 0x7ff0" "vmcs ex_state kGuestCr3 = 0x1ab000"
      "cr3 ex_state = 0x1aa000" "trace ex_state = []"
    by (simp_all add: ex_state_def ex_vmcs_def)
  have h1: "g_sbpp_breakpoints ex_state = Some [ex_pre, ex_post]"
    by (simp add: ex_state_def)
  have h2: "find (\<lambda>r. patch_address r = 0x5008) [ex_pre, ex_post] = Some ex_pre"
    by (simp add: ex_pre_def)
  have h3: "type ex_pre = kPre" by (simp add: ex_pre_def)
  have h4: "memory ex_state (shadow_page_base_for_rw ex_pre + BYTE_OFFSET 0x5008) \<noteq> 0xcc"
    by (simp add: ex_state_def ex_pre_def BYTE_OFFSET_def PAGE_SIZE_def)
  have h5: "irql ex_state \<le> DISPATCH_LEVEL"
    by (simp add: ex_state_def DISPATCH_LEVEL_def)
  have h6: "ex_handlers (handler ex_pre) ex_pre 0 (vmcs ex_state kGuestRsp)
      (handler_entry (vmcs ex_state kGuestCr3) ex_pre ex_state) = Inr ?s1"
    unfolding v using ex_handler_run by (simp add: ex_pre_def)
  have h7: "dbg ?s1 \<longrightarrow> g_sbpp_last_breakpoint ?s1 = None"
    by (simp add: handler_entry_def writecr3_def Let_def ex_state_def)
  from SbpHandleBreakpoint_pre [where handlers = ex_handlers and gp_regs = 0,
      OF h1 h2 h3 h4 h5 h6 h7]
  obtain s' where s': "SbpHandleBreakpoint ex_handlers 0x5008 0 ex_state = Inr (True, s')"
      "cr3 s' = cr3 ex_state"
      "trace s' = trace ?s1 @ [WriteCr3 (cr3 ex_state), InveptAll,
                 VmWrite kCpuBasedVmExecControl (vmcs s' kCpuBasedVmExecControl),
                 VmWrite kGuestRflags (vmcs s' kGuestRflags)]"
      "ept_data s' =
               (ept_data ?s1)(EptGetEptPtEntry (UtilPaFromVa ?s1 0x5008) :=
                 (ept_data ?s1 (EptGetEptPtEntry (UtilPaFromVa ?s1 0x5008)))
                   \<lparr>write_access := True, read_access := True,
                    physial_address := UtilPfnFromPa (pa_base_for_rw ex_pre)\<rparr>)"
      "g_sbpp_last_breakpoint s' = Some ex_pre"
      "g_sbpp_breakpoints s' = g_sbpp_breakpoints ?s1"
      "SbppSaveLastPatchInfo ex_pre
               (SbppSetMonitorTrapFlag True
                 (SbppEnablePageShadowingForRW ex_pre (writecr3 (cr3 ex_state) ?s1))) = Inr s'"
    by blast
  have t1: "trace ?s1 = [WriteCr3 0x1ab000, HandlerCall 1 0x5008 0x7ff0]"
    by (simp add: handler_entry_fields v) (simp add: ex_pre_def)
  have e1: "ept_data ?s1 = ex_entry" "vmcs ?s1 = ex_vmcs"
    "EptGetEptPtEntry (UtilPaFromVa ?s1 0x5008) = 0x105"
    by (simp_all add: handler_entry_def writecr3_def Let_def ex_state_def
        EptGetEptPtEntry_def UtilPaFromVa_def UtilPfnFromPa_def)
  have s'eq: "s' = (SbppSetMonitorTrapFlag True
                 (SbppEnablePageShadowingForRW ex_pre (writecr3 (cr3 ex_state) ?s1)))
                 \<lparr>g_sbpp_last_breakpoint := Some ex_pre\<rparr>"
    using s'(7) by (auto simp: SbppSaveLastPatchInfo_def split: if_splits)
  have vm: "vmcs s' kCpuBasedVmExecControl = 0x88000000" "vmcs s' kGuestRflags = 0x2"
    unfolding s'eq
    by (simp_all add: SbppSetMonitorTrapFlag_vmcs engine_frame writecr3_fields e1 ex_vmcs_def
        assign_bit_def monitor_trap_flag_def intf_def set_bit_eq_or unset_bit_eq_and_not)
  have tr: "trace s' = [WriteCr3 0x1ab000, HandlerCall 1 0x5008 0x7ff0, WriteCr3 0x1aa000,
                     InveptAll, VmWrite kCpuBasedVmExecControl 0x88000000,
                     VmWrite kGuestRflags 0x2]"
    unfolding s'(3) t1 vm v by simp
  have en: "ept_data s' 0x105
          = \<lparr>read_access = True, write_access = True, execute_access = True,
             physial_address = 0x110\<rparr>"
    unfolding s'(4) e1 by (simp add: ex_entry_def UtilPfnFromPa_def ex_pre_def)
  have rg: "g_sbpp_breakpoints s' = Some [ex_pre, ex_post\<lparr>parameters := [0x7ff0]\<rparr>]"
    using s'(6) by simp
  from s'(1) s'(2) tr s'(5) rg en show ?thesis unfolding v by blast
qed


section \<open>The breakpoint exit at a post record\<close>

text \<open>
  The two post branches in general, for the first record at the guest instruction
  pointer, on the exec shadow and at interrupt level at most dispatch level.

  On the owner thread the handler starts under the guest's CR3; when it returns (leaving
  the registry as it was, or with records added at its end) the call returns true with
  the record erased. If some record of the registry is then on the page of the guest
  instruction pointer, the page table is as the handler left it. If none is, the entry
  that is set to the identity mapping is the one of the page of the address read from
  the released record.

  On another thread (with the slot free where the assertion on it is compiled in) no
  handler is called and CR3 is not written; the registry is as it was, the leaf entry is
  on the read/write shadow, the monitor trap flag is armed and the record is the last
  event.
\<close>

lemma SbpHandleBreakpoint_post_cases:
  assumes "g_sbpp_breakpoints s = Some ptrs"
      and "find (\<lambda>r. patch_address r = guest_ip) ptrs = Some info"
      and "type info = kPost"
      and "memory s (shadow_page_base_for_rw info + BYTE_OFFSET guest_ip) \<noteq> 0xcc"
      and "irql s \<le> DISPATCH_LEVEL"
  shows "(target_tid info = current_thread_id s
          \<and> handlers (handler info) info gp_regs (vmcs s kGuestRsp)
               (handler_entry (vmcs s kGuestCr3) info s) = Inr s1
          \<and> g_sbpp_breakpoints s1 = Some (ptrs @ ext)
        \<longrightarrow> cr3 (handler_entry (vmcs s kGuestCr3) info s) = vmcs s kGuestCr3
          \<and> trace (handler_entry (vmcs s kGuestCr3) info s) =
              trace s @ [WriteCr3 (vmcs s kGuestCr3),
                         HandlerCall (handler info) guest_ip (vmcs s kGuestRsp)]
          \<and> (\<exists>s'. SbpHandleBreakpoint handlers guest_ip gp_regs s = Inr (True, s')
                \<and> g_sbpp_breakpoints s' = Some (remove1 info (ptrs @ ext))
                \<and> cr3 s' = cr3 s
                \<and> g_sbpp_last_breakpoint s' = g_sbpp_last_breakpoint s1
                \<and> vmcs s' = vmcs s1
                \<and> (if \<forall>r\<in>set (remove1 info (ptrs @ ext)).
                         PAGE_ALIGN (patch_address r) \<noteq> PAGE_ALIGN guest_ip
                   then ept_data s' =
                          (ept_data s1)
                            (EptGetEptPtEntry (UtilPaFromVa s1
                                 (PAGE_ALIGN (patch_address (read_freed s1 info)))) :=
                               \<lparr>read_access = True, write_access = True,
                                execute_access = True,
                                physial_address =
                                  UtilPfnFromPa (UtilPaFromVa s1
                                    (PAGE_ALIGN (patch_address (read_freed s1 info))))\<rparr>)
                        \<and> trace s' = trace s1 @ [WriteCr3 (cr3 s), InveptAll]
                   else ept_data s' = ept_data s1
                        \<and> trace s' = trace s1 @ [WriteCr3 (cr3 s)])))
     \<and> (target_tid info \<noteq> current_thread_id s
          \<and> (dbg s \<longrightarrow> g_sbpp_last_breakpoint s = None)
        \<longrightarrow> (\<exists>s'. SbpHandleBreakpoint handlers guest_ip gp_regs s = Inr (True, s')
                \<and> g_sbpp_breakpoints s' = Some ptrs
                \<and> cr3 s' = cr3 s
                \<and> trace s' = trace s @ [InveptAll,
                      VmWrite kCpuBasedVmExecControl (vmcs s' kCpuBasedVmExecControl),
                      VmWrite kGuestRflags (vmcs s' kGuestRflags)]
                \<and> ept_data s' =
                    (ept_data s)(EptGetEptPtEntry (UtilPaFromVa s guest_ip) :=
                      (ept_data s (EptGetEptPtEntry (UtilPaFromVa s guest_ip)))
                        \<lparr>write_access := True, read_access := True,
                         physial_address := UtilPfnFromPa (pa_base_for_rw info)\<rparr>)
                \<and> bit (vmcs s' kCpuBasedVmExecControl) monitor_trap_flag
                \<and> \<not> bit (vmcs s' kGuestRflags) intf
                \<and> g_sbpp_last_breakpoint s' = Some info))"
proof (intro conjI impI)
  from find_Some_P [OF assms(2)] have ip: "patch_address info = guest_ip" by simp
  assume a: "target_tid info = current_thread_id s
          \<and> handlers (handler info) info gp_regs (vmcs s kGuestRsp)
               (handler_entry (vmcs s kGuestCr3) info s) = Inr s1
          \<and> g_sbpp_breakpoints s1 = Some (ptrs @ ext)"
  show "cr3 (handler_entry (vmcs s kGuestCr3) info s) = vmcs s kGuestCr3"
    by (simp add: handler_entry_fields)
  show "trace (handler_entry (vmcs s kGuestCr3) info s) =
              trace s @ [WriteCr3 (vmcs s kGuestCr3),
                         HandlerCall (handler info) guest_ip (vmcs s kGuestRsp)]"
    by (simp add: handler_entry_fields ip)
  let ?s2 = "writecr3 (cr3 s) s1"
  let ?rest = "remove1 info (ptrs @ ext)"
  let ?s3 = "?s2\<lparr>g_sbpp_breakpoints := Some ?rest\<rparr>"
  have call: "call_handler handlers info gp_regs (vmcs s kGuestCr3) (cr3 s) s = Inr ?s2"
    using a by (simp add: call_handler_returns)
  have g2: "g_sbpp_breakpoints ?s2 = Some (ptrs @ ext)"
    using a by (simp add: writecr3_fields)
  have f2: "find (\<lambda>r. patch_address r = patch_address info) (ptrs @ ext) = Some info"
    using assms(2) by (simp add: ip find_append_Some)
  have del: "SbppDeleteBreakpointFromList info ?s2 = Inr ?s3"
    by (rule SbppDeleteBreakpointFromList_found [OF g2 f2])
  have look: "SbppFindPatchInfoByPage guest_ip ?s3
      = Inr (find (\<lambda>r. PAGE_ALIGN (patch_address r) = PAGE_ALIGN guest_ip) ?rest)"
    by (simp add: SbppFindPatchInfoByPage_find)
  have nb: "(DISPATCH_LEVEL < irql s) = False" using assms(5) by auto
  have run: "SbpHandleBreakpoint handlers guest_ip gp_regs s =
      (if find (\<lambda>r. PAGE_ALIGN (patch_address r) = PAGE_ALIGN guest_ip) ?rest = None
       then Inr (True, SbppDisablePageShadowing (read_freed ?s3 info) ?s3) else Inr (True, ?s3))"
    using assms(3,4) a call del look
    by (simp add: SbpHandleBreakpoint_tracked [OF assms(1,2)] SbppIsShadowBreakpoint_def ip
        ebind_def nb)
  show "\<exists>s'. SbpHandleBreakpoint handlers guest_ip gp_regs s = Inr (True, s')
                \<and> g_sbpp_breakpoints s' = Some (remove1 info (ptrs @ ext))
                \<and> cr3 s' = cr3 s
                \<and> g_sbpp_last_breakpoint s' = g_sbpp_last_breakpoint s1
                \<and> vmcs s' = vmcs s1
                \<and> (if \<forall>r\<in>set (remove1 info (ptrs @ ext)).
                         PAGE_ALIGN (patch_address r) \<noteq> PAGE_ALIGN guest_ip
                   then ept_data s' =
                          (ept_data s1)
                            (EptGetEptPtEntry (UtilPaFromVa s1
                                 (PAGE_ALIGN (patch_address (read_freed s1 info)))) :=
                               \<lparr>read_access = True, write_access = True,
                                execute_access = True,
                                physial_address =
                                  UtilPfnFromPa (UtilPaFromVa s1
                                    (PAGE_ALIGN (patch_address (read_freed s1 info))))\<rparr>)
                        \<and> trace s' = trace s1 @ [WriteCr3 (cr3 s), InveptAll]
                   else ept_data s' = ept_data s1
                        \<and> trace s' = trace s1 @ [WriteCr3 (cr3 s)])"
  proof (cases "find (\<lambda>r. PAGE_ALIGN (patch_address r) = PAGE_ALIGN guest_ip) ?rest = None")
    case True
    then have none: "\<forall>r\<in>set ?rest. PAGE_ALIGN (patch_address r) \<noteq> PAGE_ALIGN guest_ip"
      by (simp add: find_None_iff)
    from True run have r: "SbpHandleBreakpoint handlers guest_ip gp_regs s
        = Inr (True, SbppDisablePageShadowing (read_freed ?s3 info) ?s3)" by simp
    show ?thesis
      apply (rule exI [of _ "SbppDisablePageShadowing (read_freed ?s3 info) ?s3"])
      using none r
      by (simp add: SbppDisablePageShadowing_def UtilInveptAll_def Let_def writecr3_def
          UtilPaFromVa_def ip entry_all_updated)
  next
    case False
    then have some: "\<not> (\<forall>r\<in>set ?rest. PAGE_ALIGN (patch_address r) \<noteq> PAGE_ALIGN guest_ip)"
      by (auto simp: find_None_iff)
    have r: "SbpHandleBreakpoint handlers guest_ip gp_regs s = Inr (True, ?s3)"
      by (simp only: run False if_False)
    show ?thesis
      apply (rule exI [of _ ?s3])
      using some r
      by (simp add: writecr3_def)
  qed
next
  from find_Some_P [OF assms(2)] have ip: "patch_address info = guest_ip" by simp
  assume b: "target_tid info \<noteq> current_thread_id s
          \<and> (dbg s \<longrightarrow> g_sbpp_last_breakpoint s = None)"
  then have free: "dbg s \<longrightarrow> g_sbpp_last_breakpoint s = None" by simp
  from step_over_result [OF free, of info] obtain s' where s': "step_over info s = Inr s'"
    by blast
  have run: "SbpHandleBreakpoint handlers guest_ip gp_regs s = Inr (True, s')"
    using assms(3,4,5) b s'
    by (simp add: SbpHandleBreakpoint_tracked [OF assms(1,2)] SbppIsShadowBreakpoint_def ip
        ebind_def)
  note f = step_over_fields [OF s']
  from run f assms(1)
  show "\<exists>s'. SbpHandleBreakpoint handlers guest_ip gp_regs s = Inr (True, s')
                \<and> g_sbpp_breakpoints s' = Some ptrs
                \<and> cr3 s' = cr3 s
                \<and> trace s' = trace s @ [InveptAll,
                      VmWrite kCpuBasedVmExecControl (vmcs s' kCpuBasedVmExecControl),
                      VmWrite kGuestRflags (vmcs s' kGuestRflags)]
                \<and> ept_data s' =
                    (ept_data s)(EptGetEptPtEntry (UtilPaFromVa s guest_ip) :=
                      (ept_data s (EptGetEptPtEntry (UtilPaFromVa s guest_ip)))
                        \<lparr>write_access := True, read_access := True,
                         physial_address := UtilPfnFromPa (pa_base_for_rw info)\<rparr>)
                \<and> bit (vmcs s' kCpuBasedVmExecControl) monitor_trap_flag
                \<and> \<not> bit (vmcs s' kGuestRflags) intf
                \<and> g_sbpp_last_breakpoint s' = Some info"
    by (simp add: ip)
qed


text \<open>
  C2. The claim that on the owner thread the leaf entry is restored to the identity
  mapping when no other record remains on the page, on the example of the post record of
  thread 4 alone on its page, with the entry of frame 0x105 on the exec shadow. Thread 4
  at 0x5010: the handler runs under the guest's CR3, the record is erased and the call
  returns true. The address is then read through the pointer to the erased record. Where
  the allocator has overwritten it with 0, the entry of frame 0x105 stays on the exec
  shadow with read and write denied, and the entry written is that of frame 0x100, the
  page of address 0. Only where the released memory still holds the record is the entry
  of frame 0x105 the identity mapping.

  The lookup by address also returns the first record at the address only: with the post
  records of thread 4 and of thread 9 both at 0x5010, a hit of thread 9 finds the record
  of thread 4, calls no handler and erases nothing.
\<close>

theorem SbpHandleBreakpoint_post_reads_erased_record:
  "(\<exists>s'. SbpHandleBreakpoint ex_handlers 0x5010 0 ex_last_post = Inr (True, s')
       \<and> g_sbpp_breakpoints s' = Some []
       \<and> ept_data s' 0x105
           = \<lparr>read_access = False, write_access = False, execute_access = True,
              physial_address = 0x120\<rparr>
       \<and> ept_data s' 0x100
           = \<lparr>read_access = True, write_access = True, execute_access = True,
              physial_address = 0x100\<rparr>
       \<and> trace s' = [WriteCr3 0x1ab000, HandlerCall 2 0x5010 0x7ff0, WriteCr3 0x1aa000,
                      InveptAll])
   \<and> (\<exists>s'. SbpHandleBreakpoint ex_handlers 0x5010 0
               (ex_last_post\<lparr>read_freed := (\<lambda>r. r)\<rparr>) = Inr (True, s')
       \<and> g_sbpp_breakpoints s' = Some []
       \<and> ept_data s' 0x105
           = \<lparr>read_access = True, write_access = True, execute_access = True,
              physial_address = 0x105\<rparr>)
   \<and> (\<exists>s'. SbpHandleBreakpoint ex_handlers 0x5010 0
               (ex_state\<lparr>g_sbpp_breakpoints :=
                            Some [ex_pre, ex_post, ex_post\<lparr>target_tid := 9\<rparr>],
                          current_thread_id := 9\<rparr>) = Inr (True, s')
       \<and> g_sbpp_breakpoints s' = Some [ex_pre, ex_post, ex_post\<lparr>target_tid := 9\<rparr>]
       \<and> g_sbpp_last_breakpoint s' = Some ex_post
       \<and> trace s' = [InveptAll, VmWrite kCpuBasedVmExecControl 0x88000000,
                      VmWrite kGuestRflags 0x2])"
proof -
  have ty: "type ex_post = kPost" by (simp add: ex_post_def)
  have b2: "find (\<lambda>r. patch_address r = 0x5010) [ex_post] = Some ex_post"
    by (simp add: ex_post_def)
  have rem: "remove1 ex_post ([ex_post] @ []) = []" by simp
  have A: "\<exists>s'. SbpHandleBreakpoint ex_handlers 0x5010 0 ex_last_post = Inr (True, s')
       \<and> g_sbpp_breakpoints s' = Some []
       \<and> ept_data s' 0x105
           = \<lparr>read_access = False, write_access = False, execute_access = True,
              physial_address = 0x120\<rparr>
       \<and> ept_data s' 0x100
           = \<lparr>read_access = True, write_access = True, execute_access = True,
              physial_address = 0x100\<rparr>
       \<and> trace s' = [WriteCr3 0x1ab000, HandlerCall 2 0x5010 0x7ff0, WriteCr3 0x1aa000,
                      InveptAll]"
  proof -
    let ?t = "ex_last_post"
    let ?f = "handler_entry 0x1ab000 ex_post ?t"
    have b1: "g_sbpp_breakpoints ?t = Some [ex_post]" by (simp add: ex_last_post_def)
    have b4: "memory ?t (shadow_page_base_for_rw ex_post + BYTE_OFFSET 0x5010) \<noteq> 0xcc"
      by (simp add: ex_last_post_def ex_state_def ex_post_def BYTE_OFFSET_def PAGE_SIZE_def)
    have b5: "irql ?t \<le> DISPATCH_LEVEL"
      by (simp add: ex_last_post_def ex_state_def DISPATCH_LEVEL_def)
    have w: "vmcs ?t kGuestRsp = 0x7ff0" "vmcs ?t kGuestCr3 = 0x1ab000"
        "cr3 ?t = 0x1aa000" "trace ?t = []"
      by (simp_all add: ex_last_post_def ex_state_def ex_vmcs_def)
    have b6: "target_tid ex_post = current_thread_id ?t
        \<and> ex_handlers (handler ex_post) ex_post 0 (vmcs ?t kGuestRsp)
             (handler_entry (vmcs ?t kGuestCr3) ex_post ?t) = Inr ?f
        \<and> g_sbpp_breakpoints ?f = Some ([ex_post] @ [])"
      by (simp add: ex_handlers_def handler_entry_def writecr3_def Let_def UtilVmRead_def
          ex_post_def ex_last_post_def ex_state_def ex_vmcs_def)
    have tf: "trace ?f = [WriteCr3 0x1ab000, HandlerCall 2 0x5010 0x7ff0]"
        "ept_data ?f = ex_entry(0x105 := \<lparr>read_access = False, write_access = False,
                                          execute_access = True, physial_address = 0x120\<rparr>)"
        "EptGetEptPtEntry (UtilPaFromVa ?f
           (PAGE_ALIGN (patch_address (read_freed ?f ex_post)))) = 0x100"
        "UtilPfnFromPa (UtilPaFromVa ?f
           (PAGE_ALIGN (patch_address (read_freed ?f ex_post)))) = 0x100"
      by (simp_all add: handler_entry_fields w) (simp_all add: ex_post_def handler_entry_def
          writecr3_def Let_def ex_last_post_def ex_state_def EptGetEptPtEntry_def
          UtilPaFromVa_def UtilPfnFromPa_def PAGE_ALIGN_def PAGE_SIZE_def ex_vmcs_def)
    from SbpHandleBreakpoint_post_cases [where handlers = ex_handlers and gp_regs = 0
        and ext = "[]" and ?s1.0 = ?f, OF b1 b2 ty b4 b5] b6
    obtain s'' where s'': "SbpHandleBreakpoint ex_handlers 0x5010 0 ?t = Inr (True, s'')"
        "g_sbpp_breakpoints s'' = Some (remove1 ex_post ([ex_post] @ []))"
        "if \<forall>r\<in>set (remove1 ex_post ([ex_post] @ [])).
               PAGE_ALIGN (patch_address r) \<noteq> PAGE_ALIGN 0x5010
         then ept_data s'' =
                (ept_data ?f)
                  (EptGetEptPtEntry (UtilPaFromVa ?f
                       (PAGE_ALIGN (patch_address (read_freed ?f ex_post)))) :=
                     \<lparr>read_access = True, write_access = True, execute_access = True,
                      physial_address = UtilPfnFromPa (UtilPaFromVa ?f
                        (PAGE_ALIGN (patch_address (read_freed ?f ex_post))))\<rparr>)
              \<and> trace s'' = trace ?f @ [WriteCr3 (cr3 ?t), InveptAll]
         else ept_data s'' = ept_data ?f
              \<and> trace s'' = trace ?f @ [WriteCr3 (cr3 ?t)]"
      by blast
    show ?thesis using s'' unfolding tf w rem by simp
  qed
  have B: "\<exists>s'. SbpHandleBreakpoint ex_handlers 0x5010 0
               (ex_last_post\<lparr>read_freed := (\<lambda>r. r)\<rparr>) = Inr (True, s')
       \<and> g_sbpp_breakpoints s' = Some []
       \<and> ept_data s' 0x105
           = \<lparr>read_access = True, write_access = True, execute_access = True,
              physial_address = 0x105\<rparr>"
  proof -
    let ?t = "ex_last_post\<lparr>read_freed := (\<lambda>r. r)\<rparr>"
    let ?f = "handler_entry 0x1ab000 ex_post ?t"
    have b1: "g_sbpp_breakpoints ?t = Some [ex_post]" by (simp add: ex_last_post_def)
    have b4: "memory ?t (shadow_page_base_for_rw ex_post + BYTE_OFFSET 0x5010) \<noteq> 0xcc"
      by (simp add: ex_last_post_def ex_state_def ex_post_def BYTE_OFFSET_def PAGE_SIZE_def)
    have b5: "irql ?t \<le> DISPATCH_LEVEL"
      by (simp add: ex_last_post_def ex_state_def DISPATCH_LEVEL_def)
    have b6: "target_tid ex_post = current_thread_id ?t
        \<and> ex_handlers (handler ex_post) ex_post 0 (vmcs ?t kGuestRsp)
             (handler_entry (vmcs ?t kGuestCr3) ex_post ?t) = Inr ?f
        \<and> g_sbpp_breakpoints ?f = Some ([ex_post] @ [])"
      by (simp add: ex_handlers_def handler_entry_def writecr3_def Let_def UtilVmRead_def
          ex_post_def ex_last_post_def ex_state_def ex_vmcs_def)
    have tf: "EptGetEptPtEntry (UtilPaFromVa ?f
           (PAGE_ALIGN (patch_address (read_freed ?f ex_post)))) = 0x105"
        "UtilPfnFromPa (UtilPaFromVa ?f
           (PAGE_ALIGN (patch_address (read_freed ?f ex_post)))) = 0x105"
      by (simp_all add: ex_post_def handler_entry_def
          writecr3_def Let_def ex_last_post_def ex_state_def EptGetEptPtEntry_def
          UtilPaFromVa_def UtilPfnFromPa_def PAGE_ALIGN_def PAGE_SIZE_def ex_vmcs_def)
    from SbpHandleBreakpoint_post_cases [where handlers = ex_handlers and gp_regs = 0
        and ext = "[]" and ?s1.0 = ?f, OF b1 b2 ty b4 b5] b6
    obtain s'' where s'': "SbpHandleBreakpoint ex_handlers 0x5010 0 ?t = Inr (True, s'')"
        "g_sbpp_breakpoints s'' = Some (remove1 ex_post ([ex_post] @ []))"
        "if \<forall>r\<in>set (remove1 ex_post ([ex_post] @ [])).
               PAGE_ALIGN (patch_address r) \<noteq> PAGE_ALIGN 0x5010
         then ept_data s'' =
                (ept_data ?f)
                  (EptGetEptPtEntry (UtilPaFromVa ?f
                       (PAGE_ALIGN (patch_address (read_freed ?f ex_post)))) :=
                     \<lparr>read_access = True, write_access = True, execute_access = True,
                      physial_address = UtilPfnFromPa (UtilPaFromVa ?f
                        (PAGE_ALIGN (patch_address (read_freed ?f ex_post))))\<rparr>)
              \<and> trace s'' = trace ?f @ [WriteCr3 (cr3 ?t), InveptAll]
         else ept_data s'' = ept_data ?f
              \<and> trace s'' = trace ?f @ [WriteCr3 (cr3 ?t)]"
      by blast
    show ?thesis using s'' unfolding tf rem by simp
  qed
  have C: "\<exists>s'. SbpHandleBreakpoint ex_handlers 0x5010 0
               (ex_state\<lparr>g_sbpp_breakpoints :=
                            Some [ex_pre, ex_post, ex_post\<lparr>target_tid := 9\<rparr>],
                          current_thread_id := 9\<rparr>) = Inr (True, s')
       \<and> g_sbpp_breakpoints s' = Some [ex_pre, ex_post, ex_post\<lparr>target_tid := 9\<rparr>]
       \<and> g_sbpp_last_breakpoint s' = Some ex_post
       \<and> trace s' = [InveptAll, VmWrite kCpuBasedVmExecControl 0x88000000,
                      VmWrite kGuestRflags 0x2]"
  proof -
    let ?L = "[ex_pre, ex_post, ex_post\<lparr>target_tid := 9\<rparr>]"
    let ?u = "ex_state\<lparr>g_sbpp_breakpoints := Some ?L, current_thread_id := 9\<rparr>"
    have c1: "g_sbpp_breakpoints ?u = Some ?L" by simp
    have c2: "find (\<lambda>r. patch_address r = 0x5010) ?L = Some ex_post"
      by (simp add: ex_pre_def ex_post_def)
    have c4: "memory ?u (shadow_page_base_for_rw ex_post + BYTE_OFFSET 0x5010) \<noteq> 0xcc"
      by (simp add: ex_state_def ex_post_def BYTE_OFFSET_def PAGE_SIZE_def)
    have c5: "irql ?u \<le> DISPATCH_LEVEL" by (simp add: ex_state_def DISPATCH_LEVEL_def)
    have d: "dbg ?u \<longrightarrow> g_sbpp_last_breakpoint ?u = None"
      by (simp add: ex_state_def)
    have c6: "target_tid ex_post \<noteq> current_thread_id ?u
        \<and> (dbg ?u \<longrightarrow> g_sbpp_last_breakpoint ?u = None)"
      by (simp add: ex_post_def ex_state_def)
    from SbpHandleBreakpoint_post_cases [where handlers = ex_handlers and gp_regs = 0,
        OF c1 c2 ty c4 c5] c6
    obtain s3 where s3: "SbpHandleBreakpoint ex_handlers 0x5010 0 ?u = Inr (True, s3)"
        "g_sbpp_breakpoints s3 = Some ?L"
        "trace s3 = trace ?u @ [InveptAll,
            VmWrite kCpuBasedVmExecControl (vmcs s3 kCpuBasedVmExecControl),
            VmWrite kGuestRflags (vmcs s3 kGuestRflags)]"
        "g_sbpp_last_breakpoint s3 = Some ex_post"
      by blast
    have sb: "SbppIsShadowBreakpoint ex_post ?u" "(DISPATCH_LEVEL < irql ?u) = False"
      using c4 c5 by (auto simp: SbppIsShadowBreakpoint_def ex_post_def)
    from step_over_result [OF d, of ex_post]
    have so: "step_over ex_post ?u
        = Inr ((SbppSetMonitorTrapFlag True (SbppEnablePageShadowingForRW ex_post ?u))
                 \<lparr>g_sbpp_last_breakpoint := Some ex_post\<rparr>)"
      by auto
    have eq: "s3 = (SbppSetMonitorTrapFlag True (SbppEnablePageShadowingForRW ex_post ?u))
                 \<lparr>g_sbpp_last_breakpoint := Some ex_post\<rparr>"
      using s3(1) sb so c6 ty
      by (simp add: SbpHandleBreakpoint_tracked [OF c1 c2] ebind_def)
    have v: "vmcs s3 kCpuBasedVmExecControl = 0x88000000" "vmcs s3 kGuestRflags = 0x2"
      unfolding eq
      by (simp_all add: SbppSetMonitorTrapFlag_vmcs engine_frame ex_state_def ex_vmcs_def
          assign_bit_def monitor_trap_flag_def intf_def set_bit_eq_or unset_bit_eq_and_not)
    have tr: "trace s3 = [InveptAll, VmWrite kCpuBasedVmExecControl 0x88000000,
                      VmWrite kGuestRflags 0x2]"
      unfolding s3(3) v by (simp add: ex_state_def)
    from s3(1) s3(2) s3(4) tr show ?thesis by blast
  qed
  from A B C show ?thesis by blast
qed


section \<open>When the breakpoint exit answers not ours\<close>

text \<open>
  C3. \<^verbatim>\<open>SbpHandleBreakpoint\<close> returns false exactly when the specification's condition
  holds: no registry, no record whose address equals the guest instruction pointer, or
  the byte 0xCC at offset (address mod 4096) of the read/write shadow of the record found;
  the state is then as it was. Whenever the call returns, the value returned is the
  negation of that condition. For every other tracked hit at interrupt level at most
  dispatch level the call does return, with true, when the handler returns with the
  registry present and the last-event slot is free where the assertion on it is compiled
  in.
\<close>

theorem SbpHandleBreakpoint_not_ours:
  "(SbpHandleBreakpoint handlers guest_ip gp_regs s = Inr (False, s')
       \<longleftrightarrow> spec_not_ours guest_ip s \<and> s' = s)
   \<and> (\<forall>b t. SbpHandleBreakpoint handlers guest_ip gp_regs s = Inr (b, t)
          \<longrightarrow> b = (\<not> spec_not_ours guest_ip s))
   \<and> (\<not> spec_not_ours guest_ip s
        \<and> irql s \<le> DISPATCH_LEVEL
        \<and> g_sbpp_breakpoints s = Some ptrs
        \<and> find (\<lambda>r. patch_address r = guest_ip) ptrs = Some info
        \<and> handlers (handler info) info gp_regs (vmcs s kGuestRsp)
             (handler_entry (vmcs s kGuestCr3) info s) = Inr s1
        \<and> g_sbpp_breakpoints s1 \<noteq> None
        \<and> (dbg s1 \<longrightarrow> g_sbpp_last_breakpoint s1 = None)
        \<and> (dbg s \<longrightarrow> g_sbpp_last_breakpoint s = None)
      \<longrightarrow> (\<exists>t. SbpHandleBreakpoint handlers guest_ip gp_regs s = Inr (True, t)))"
proof (intro conjI allI impI)
  show "SbpHandleBreakpoint handlers guest_ip gp_regs s = Inr (False, s')
       \<longleftrightarrow> spec_not_ours guest_ip s \<and> s' = s"
  proof
    assume "SbpHandleBreakpoint handlers guest_ip gp_regs s = Inr (False, s')"
    from SbpHandleBreakpoint_value [OF this] show "spec_not_ours guest_ip s \<and> s' = s"
      by simp
  next
    assume a: "spec_not_ours guest_ip s \<and> s' = s"
    show "SbpHandleBreakpoint handlers guest_ip gp_regs s = Inr (False, s')"
    proof (cases "g_sbpp_breakpoints s")
      case None
      with a show ?thesis by (simp add: SbpHandleBreakpoint_inactive)
    next
      case (Some ptrs)
      show ?thesis
      proof (cases "find (\<lambda>r. patch_address r = guest_ip) ptrs")
        case None
        with a Some show ?thesis by (simp add: SbpHandleBreakpoint_untracked)
      next
        case (Some info)
        with a \<open>g_sbpp_breakpoints s = Some ptrs\<close> show ?thesis
          by (simp add: SbpHandleBreakpoint_tracked spec_not_ours_tracked)
      qed
    qed
  qed
next
  fix b t
  assume "SbpHandleBreakpoint handlers guest_ip gp_regs s = Inr (b, t)"
  from SbpHandleBreakpoint_value [OF this] show "b = (\<not> spec_not_ours guest_ip s)"
    by simp
next
  assume a: "\<not> spec_not_ours guest_ip s
        \<and> irql s \<le> DISPATCH_LEVEL
        \<and> g_sbpp_breakpoints s = Some ptrs
        \<and> find (\<lambda>r. patch_address r = guest_ip) ptrs = Some info
        \<and> handlers (handler info) info gp_regs (vmcs s kGuestRsp)
             (handler_entry (vmcs s kGuestCr3) info s) = Inr s1
        \<and> g_sbpp_breakpoints s1 \<noteq> None
        \<and> (dbg s1 \<longrightarrow> g_sbpp_last_breakpoint s1 = None)
        \<and> (dbg s \<longrightarrow> g_sbpp_last_breakpoint s = None)"
  then have g: "g_sbpp_breakpoints s = Some ptrs"
    and f: "find (\<lambda>r. patch_address r = guest_ip) ptrs = Some info" by simp_all
  from a have sb: "SbppIsShadowBreakpoint info s"
    by (simp add: spec_not_ours_tracked [OF g f])
  from a have nb: "(DISPATCH_LEVEL < irql s) = False" by auto
  let ?s2 = "writecr3 (cr3 s) s1"
  have call: "call_handler handlers info gp_regs (vmcs s kGuestCr3) (cr3 s) s = Inr ?s2"
    using a by (simp add: call_handler_returns)
  have free2: "dbg ?s2 \<longrightarrow> g_sbpp_last_breakpoint ?s2 = None"
    using a by (simp add: writecr3_fields)
  have free: "dbg s \<longrightarrow> g_sbpp_last_breakpoint s = None" using a by simp
  from step_over_result [OF free2, of info] obtain u where u: "step_over info ?s2 = Inr u"
    by blast
  from step_over_result [OF free, of info] obtain w where w: "step_over info s = Inr w"
    by blast
  have "g_sbpp_breakpoints ?s2 \<noteq> None" using a by (simp add: writecr3_fields)
  from SbppDeleteBreakpointFromList_returns [OF this, of info]
  obtain s3 where s3: "SbppDeleteBreakpointFromList info ?s2 = Inr s3"
    "g_sbpp_breakpoints s3 \<noteq> None" by blast
  from SbppFindPatchInfoByPage_returns [OF s3(2), of guest_ip]
  obtain r where r: "SbppFindPatchInfoByPage guest_ip s3 = Inr r" by blast
  show "\<exists>t. SbpHandleBreakpoint handlers guest_ip gp_regs s = Inr (True, t)"
    using sb call u w s3(1) r
    by (simp add: SbpHandleBreakpoint_tracked [OF g f] nb ebind_def)
qed


text \<open>
  On the examples: no registry, the untracked address 0x5009 and a read/write shadow full
  of 0xcc answer false; thread 4 at 0x5010 answers true.
\<close>

theorem SbpHandleBreakpoint_not_ours_witness:
  "SbpHandleBreakpoint ex_handlers 0x5008 0 (ex_state\<lparr>g_sbpp_breakpoints := None\<rparr>)
      = Inr (False, ex_state\<lparr>g_sbpp_breakpoints := None\<rparr>)
   \<and> SbpHandleBreakpoint ex_handlers 0x5009 0 ex_state = Inr (False, ex_state)
   \<and> SbpHandleBreakpoint ex_handlers 0x5008 0 (ex_state\<lparr>memory := (\<lambda>a. 0xcc)\<rparr>)
      = Inr (False, ex_state\<lparr>memory := (\<lambda>a. 0xcc)\<rparr>)
   \<and> (\<exists>t. SbpHandleBreakpoint ex_handlers 0x5010 0 ex_state = Inr (True, t))"
proof -
  have n1: "spec_not_ours 0x5008 (ex_state\<lparr>g_sbpp_breakpoints := None\<rparr>)"
    by (simp add: spec_not_ours_def)
  have n2: "spec_not_ours 0x5009 ex_state"
    by (simp add: spec_not_ours_def ex_state_def ex_pre_def ex_post_def)
  have n3: "spec_not_ours 0x5008 (ex_state\<lparr>memory := (\<lambda>a. 0xcc)\<rparr>)"
    by (simp add: spec_not_ours_def ex_state_def ex_pre_def)
  have n4: "\<not> spec_not_ours 0x5010 ex_state"
    by (simp add: spec_not_ours_def ex_state_def ex_pre_def ex_post_def)
  have 1: "SbpHandleBreakpoint ex_handlers 0x5008 0 (ex_state\<lparr>g_sbpp_breakpoints := None\<rparr>)
      = Inr (False, ex_state\<lparr>g_sbpp_breakpoints := None\<rparr>)"
    using SbpHandleBreakpoint_not_ours [where handlers = ex_handlers and guest_ip = "0x5008"
        and gp_regs = 0 and s = "ex_state\<lparr>g_sbpp_breakpoints := None\<rparr>"
        and s' = "ex_state\<lparr>g_sbpp_breakpoints := None\<rparr>"] n1 by blast
  have 2: "SbpHandleBreakpoint ex_handlers 0x5009 0 ex_state = Inr (False, ex_state)"
    using SbpHandleBreakpoint_not_ours [where handlers = ex_handlers and guest_ip = "0x5009"
        and gp_regs = 0 and s = ex_state and s' = ex_state] n2 by blast
  have 3: "SbpHandleBreakpoint ex_handlers 0x5008 0 (ex_state\<lparr>memory := (\<lambda>a. 0xcc)\<rparr>)
      = Inr (False, ex_state\<lparr>memory := (\<lambda>a. 0xcc)\<rparr>)"
    using SbpHandleBreakpoint_not_ours [where handlers = ex_handlers and guest_ip = "0x5008"
        and gp_regs = 0 and s = "ex_state\<lparr>memory := (\<lambda>a. 0xcc)\<rparr>"
        and s' = "ex_state\<lparr>memory := (\<lambda>a. 0xcc)\<rparr>"] n3 by blast
  let ?e = "handler_entry 0x1ab000 ex_post ex_state"
  have h: "irql ex_state \<le> DISPATCH_LEVEL"
      "g_sbpp_breakpoints ex_state = Some [ex_pre, ex_post]"
      "find (\<lambda>r. patch_address r = 0x5010) [ex_pre, ex_post] = Some ex_post"
      "ex_handlers (handler ex_post) ex_post 0 (vmcs ex_state kGuestRsp)
           (handler_entry (vmcs ex_state kGuestCr3) ex_post ex_state) = Inr ?e"
      "g_sbpp_breakpoints ?e \<noteq> None"
      "dbg ?e \<longrightarrow> g_sbpp_last_breakpoint ?e = None"
      "dbg ex_state \<longrightarrow> g_sbpp_last_breakpoint ex_state = None"
    by (simp_all add: ex_handlers_def handler_entry_def writecr3_def Let_def UtilVmRead_def
        ex_pre_def ex_post_def ex_state_def ex_vmcs_def DISPATCH_LEVEL_def)
  have 4: "\<exists>t. SbpHandleBreakpoint ex_handlers 0x5010 0 ex_state = Inr (True, t)"
    using SbpHandleBreakpoint_not_ours [where handlers = ex_handlers and guest_ip = "0x5010"
        and gp_regs = 0 and s = ex_state and ptrs = "[ex_pre, ex_post]" and info = ex_post
        and ?s1.0 = ?e] n4 h by blast
  from 1 2 3 4 show ?thesis by blast
qed


section \<open>The bytes of the two shadows\<close>

text \<open>
  C5. After \<^verbatim>\<open>SbppCreateBreakpoint\<close>, on which both \<^verbatim>\<open>SbppCreatePreBreakpoint\<close> and
  \<^verbatim>\<open>SbppCreatePostBreakpoint\<close> build, the byte at the patch offset of the exec shadow
  is 0xcc.

  For the first record on a page the pool hands out the read/write shadow, then the exec
  shadow (two buffers that share no byte with each other; the read/write one shares none
  with the guest page). Both take the 4096 bytes of the guest page: the read/write
  shadow holds the guest's byte at every offset, so the original code byte at the patch
  offset, and the exec shadow holds the guest's byte at every offset but the patch offset.

  For a later record on the same page the shadow pair of the first record on the page is
  taken over, and nothing but the byte at the new patch offset of the exec shadow changes:
  the read/write shadow keeps every byte, the exec shadow keeps the 0xcc of the earlier
  records.

  The two wrappers return the state of \<^verbatim>\<open>SbppCreateBreakpoint\<close> and a record with its
  address and shadow pages.
\<close>

theorem SbppCreateBreakpoint_shadow_bytes:
  assumes "g_sbpp_breakpoints s = Some ptrs"
  shows "(find (\<lambda>r. PAGE_ALIGN (patch_address r) = PAGE_ALIGN address) ptrs = None
          \<and> pool s = rw # ex # rest \<and> rw \<noteq> 0 \<and> ex \<noteq> 0
          \<and> pages_apart rw ex \<and> pages_apart (PAGE_ALIGN address) rw
        \<longrightarrow> (\<exists>info s'. SbppCreateBreakpoint address s = Inr (info, s')
              \<and> patch_address info = address
              \<and> shadow_page_base_for_rw info = rw
              \<and> shadow_page_base_for_exec info = ex
              \<and> memory s' (shadow_page_base_for_exec info + BYTE_OFFSET address) = 0xcc
              \<and> memory s' (shadow_page_base_for_rw info + BYTE_OFFSET address)
                  = memory s address
              \<and> (\<forall>off<PAGE_SIZE. memory s' (rw + off) = memory s (PAGE_ALIGN address + off))
              \<and> (\<forall>off<PAGE_SIZE. off \<noteq> BYTE_OFFSET address
                    \<longrightarrow> memory s' (ex + off) = memory s (PAGE_ALIGN address + off))))
     \<and> (find (\<lambda>r. PAGE_ALIGN (patch_address r) = PAGE_ALIGN address) ptrs = Some r
          \<and> pages_apart (shadow_page_base_for_rw r) (shadow_page_base_for_exec r)
        \<longrightarrow> (\<exists>info s'. SbppCreateBreakpoint address s = Inr (info, s')
              \<and> patch_address info = address
              \<and> shadow_page_base_for_rw info = shadow_page_base_for_rw r
              \<and> shadow_page_base_for_exec info = shadow_page_base_for_exec r
              \<and> memory s' (shadow_page_base_for_exec info + BYTE_OFFSET address) = 0xcc
              \<and> (\<forall>off<PAGE_SIZE. memory s' (shadow_page_base_for_rw info + off)
                                    = memory s (shadow_page_base_for_rw info + off))
              \<and> (\<forall>a. a \<noteq> shadow_page_base_for_exec info + BYTE_OFFSET address
                    \<longrightarrow> memory s' a = memory s a)))
     \<and> (\<forall>info s'. SbppCreateBreakpoint address s = Inr (info, s')
          \<longrightarrow> (\<exists>p. SbppCreatePreBreakpoint address target nm s = Inr (p, s')
                   \<and> type p = kPre \<and> patch_address p = patch_address info
                   \<and> shadow_page_base_for_rw p = shadow_page_base_for_rw info
                   \<and> shadow_page_base_for_exec p = shadow_page_base_for_exec info)
            \<and> (\<exists>p. SbppCreatePostBreakpoint address pre tid params s = Inr (p, s')
                   \<and> type p = kPost \<and> patch_address p = patch_address info
                   \<and> shadow_page_base_for_rw p = shadow_page_base_for_rw info
                   \<and> shadow_page_base_for_exec p = shadow_page_base_for_exec info))"
proof (intro conjI impI allI)
  assume a: "find (\<lambda>r. PAGE_ALIGN (patch_address r) = PAGE_ALIGN address) ptrs = None
          \<and> pool s = rw # ex # rest \<and> rw \<noteq> 0 \<and> ex \<noteq> 0
          \<and> pages_apart rw ex \<and> pages_apart (PAGE_ALIGN address) rw"
  let ?s' = "SbppEmbedBreakpoint (ex + BYTE_OFFSET address)
            (RtlCopyMemory ex (PAGE_ALIGN address) PAGE_SIZE
              (RtlCopyMemory rw (PAGE_ALIGN address) PAGE_SIZE (s\<lparr>pool := rest\<rparr>)))"
  let ?info = "make_unique_PatchInformation
            \<lparr>shadow_page_base_for_rw := rw,
             shadow_page_base_for_exec := ex,
             patch_address := address,
             pa_base_for_rw := UtilPaFromVa s rw,
             pa_base_for_exec := UtilPaFromVa s ex\<rparr>"
  from a have run: "SbppCreateBreakpoint address s = Inr (?info, ?s')"
    using SbppCreateBreakpoint_fresh [OF assms, of address rw ex rest] by simp
  from a have ap: "pages_apart rw ex" "pages_apart (PAGE_ALIGN address) rw" by simp_all
  note b = fresh_shadow_bytes [OF ap, of "s\<lparr>pool := rest\<rparr>"]
  have rwb: "memory ?s' (rw + BYTE_OFFSET address) = memory s address"
    using b(2) byte_offset_lt [of address] by (simp add: page_split)
  show "\<exists>info s'. SbppCreateBreakpoint address s = Inr (info, s')
              \<and> patch_address info = address
              \<and> shadow_page_base_for_rw info = rw
              \<and> shadow_page_base_for_exec info = ex
              \<and> memory s' (shadow_page_base_for_exec info + BYTE_OFFSET address) = 0xcc
              \<and> memory s' (shadow_page_base_for_rw info + BYTE_OFFSET address)
                  = memory s address
              \<and> (\<forall>off<PAGE_SIZE. memory s' (rw + off) = memory s (PAGE_ALIGN address + off))
              \<and> (\<forall>off<PAGE_SIZE. off \<noteq> BYTE_OFFSET address
                    \<longrightarrow> memory s' (ex + off) = memory s (PAGE_ALIGN address + off))"
    apply (rule exI [of _ ?info])
    apply (rule exI [of _ ?s'])
    using run b rwb by simp
next
  assume a: "find (\<lambda>r. PAGE_ALIGN (patch_address r) = PAGE_ALIGN address) ptrs = Some r
          \<and> pages_apart (shadow_page_base_for_rw r) (shadow_page_base_for_exec r)"
  let ?rw = "shadow_page_base_for_rw r"
  let ?ex = "shadow_page_base_for_exec r"
  let ?s' = "SbppEmbedBreakpoint (?ex + BYTE_OFFSET address) s"
  let ?info = "make_unique_PatchInformation
            \<lparr>shadow_page_base_for_rw := ?rw,
             shadow_page_base_for_exec := ?ex,
             patch_address := address,
             pa_base_for_rw := UtilPaFromVa s ?rw,
             pa_base_for_exec := UtilPaFromVa s ?ex\<rparr>"
  from a have run: "SbppCreateBreakpoint address s = Inr (?info, ?s')"
    using SbppCreateBreakpoint_reuse [OF assms, of address r] by simp
  from a have ap: "pages_apart ?rw ?ex" by simp
  have keep: "\<forall>off<PAGE_SIZE. memory ?s' (?rw + off) = memory s (?rw + off)"
    using pages_apart_ne [OF ap _ byte_offset_lt] by (simp add: embed_memory)
  show "\<exists>info s'. SbppCreateBreakpoint address s = Inr (info, s')
              \<and> patch_address info = address
              \<and> shadow_page_base_for_rw info = shadow_page_base_for_rw r
              \<and> shadow_page_base_for_exec info = shadow_page_base_for_exec r
              \<and> memory s' (shadow_page_base_for_exec info + BYTE_OFFSET address) = 0xcc
              \<and> (\<forall>off<PAGE_SIZE. memory s' (shadow_page_base_for_rw info + off)
                                    = memory s (shadow_page_base_for_rw info + off))
              \<and> (\<forall>a. a \<noteq> shadow_page_base_for_exec info + BYTE_OFFSET address
                    \<longrightarrow> memory s' a = memory s a)"
    apply (rule exI [of _ ?info])
    apply (rule exI [of _ ?s'])
    using run keep by (simp add: embed_memory)
next
  fix info s'
  assume "SbppCreateBreakpoint address s = Inr (info, s')"
  then show "\<exists>p. SbppCreatePreBreakpoint address target nm s = Inr (p, s')
                   \<and> type p = kPre \<and> patch_address p = patch_address info
                   \<and> shadow_page_base_for_rw p = shadow_page_base_for_rw info
                   \<and> shadow_page_base_for_exec p = shadow_page_base_for_exec info"
    by (simp add: SbppCreatePreBreakpoint_def ebind_def)
next
  fix info s'
  assume "SbppCreateBreakpoint address s = Inr (info, s')"
  then show "\<exists>p. SbppCreatePostBreakpoint address pre tid params s = Inr (p, s')
                   \<and> type p = kPost \<and> patch_address p = patch_address info
                   \<and> shadow_page_base_for_rw p = shadow_page_base_for_rw info
                   \<and> shadow_page_base_for_exec p = shadow_page_base_for_exec info"
    by (simp add: SbppCreatePostBreakpoint_def ebind_def)
qed


text \<open>
  On the example state: a first record at 0x9004 gets the shadows 0x30000 and 0x40000,
  with 0xcc at 0x40004 and the guest byte 0x90 at 0x30004 and 0x40005; a further record
  at 0x5020 takes over 0x10000 and 0x20000, with 0xcc at 0x20020, the byte 0x90 kept at
  0x10020 and the 0xcc of the pre record kept at 0x20008.
\<close>

theorem SbppCreateBreakpoint_shadow_bytes_witness:
  "(\<exists>info s'. SbppCreateBreakpoint 0x9004 ex_state = Inr (info, s')
       \<and> shadow_page_base_for_rw info = 0x30000
       \<and> shadow_page_base_for_exec info = 0x40000
       \<and> memory s' 0x40004 = 0xcc
       \<and> memory s' 0x30004 = 0x90
       \<and> memory s' 0x40005 = 0x90)
   \<and> (\<exists>info s'. SbppCreateBreakpoint 0x5020 ex_state = Inr (info, s')
       \<and> shadow_page_base_for_rw info = 0x10000
       \<and> shadow_page_base_for_exec info = 0x20000
       \<and> memory s' 0x20020 = 0xcc
       \<and> memory s' 0x10020 = 0x90
       \<and> memory s' 0x20008 = 0xcc)"
proof -
  have g: "g_sbpp_breakpoints ex_state = Some [ex_pre, ex_post]"
    by (simp add: ex_state_def)
  have m: "memory ex_state 0x9004 = 0x90" "memory ex_state 0x9005 = 0x90"
      "memory ex_state 0x10020 = 0x90" "memory ex_state 0x20008 = 0xcc"
    by (simp_all add: ex_state_def)
  have o: "BYTE_OFFSET 0x9004 = 4" "BYTE_OFFSET 0x5020 = 0x20" "PAGE_ALIGN 0x9004 = 0x9000"
    by (simp_all add: BYTE_OFFSET_def PAGE_ALIGN_def PAGE_SIZE_def)
  have f: "find (\<lambda>r. PAGE_ALIGN (patch_address r) = PAGE_ALIGN 0x9004) [ex_pre, ex_post] = None
          \<and> pool ex_state = 0x30000 # 0x40000 # [] \<and> (0x30000 :: addr) \<noteq> 0
          \<and> (0x40000 :: addr) \<noteq> 0
          \<and> pages_apart 0x30000 0x40000 \<and> pages_apart (PAGE_ALIGN 0x9004) 0x30000"
    by (simp add: ex_pre_def ex_post_def ex_state_def PAGE_ALIGN_def PAGE_SIZE_def
        pages_apart_def)
  from SbppCreateBreakpoint_shadow_bytes [OF g, where address = "0x9004" and rw = "0x30000"
      and ex = "0x40000" and rest = "[]"] f
  obtain info s' where c: "SbppCreateBreakpoint 0x9004 ex_state = Inr (info, s')"
      "shadow_page_base_for_rw info = 0x30000"
      "shadow_page_base_for_exec info = 0x40000"
      "memory s' (shadow_page_base_for_exec info + BYTE_OFFSET 0x9004) = 0xcc"
      "memory s' (shadow_page_base_for_rw info + BYTE_OFFSET 0x9004) = memory ex_state 0x9004"
      "\<forall>off<PAGE_SIZE. off \<noteq> BYTE_OFFSET 0x9004
          \<longrightarrow> memory s' (0x40000 + off) = memory ex_state (PAGE_ALIGN 0x9004 + off)"
    by blast
  from c(6) have "(5::64 word) < PAGE_SIZE \<and> 5 \<noteq> BYTE_OFFSET 0x9004
      \<longrightarrow> memory s' (0x40000 + 5) = memory ex_state (PAGE_ALIGN 0x9004 + 5)"
    by blast
  then have c5: "memory s' 0x40005 = 0x90"
    by (simp add: o m PAGE_SIZE_def)
  have A: "\<exists>info s'. SbppCreateBreakpoint 0x9004 ex_state = Inr (info, s')
       \<and> shadow_page_base_for_rw info = 0x30000
       \<and> shadow_page_base_for_exec info = 0x40000
       \<and> memory s' 0x40004 = 0xcc
       \<and> memory s' 0x30004 = 0x90
       \<and> memory s' 0x40005 = 0x90"
    using c(1-5) c5 by (auto simp: o m)
  have f2: "find (\<lambda>r. PAGE_ALIGN (patch_address r) = PAGE_ALIGN 0x5020) [ex_pre, ex_post]
            = Some ex_pre
          \<and> pages_apart (shadow_page_base_for_rw ex_pre) (shadow_page_base_for_exec ex_pre)"
    by (simp add: ex_pre_def PAGE_ALIGN_def PAGE_SIZE_def pages_apart_def)
  have sh: "shadow_page_base_for_rw ex_pre = 0x10000" "shadow_page_base_for_exec ex_pre = 0x20000"
    by (simp_all add: ex_pre_def)
  from SbppCreateBreakpoint_shadow_bytes [OF g, where address = "0x5020" and r = ex_pre] f2
  obtain info2 s2 where d: "SbppCreateBreakpoint 0x5020 ex_state = Inr (info2, s2)"
      "shadow_page_base_for_rw info2 = shadow_page_base_for_rw ex_pre"
      "shadow_page_base_for_exec info2 = shadow_page_base_for_exec ex_pre"
      "memory s2 (shadow_page_base_for_exec info2 + BYTE_OFFSET 0x5020) = 0xcc"
      "\<forall>off<PAGE_SIZE. memory s2 (shadow_page_base_for_rw info2 + off)
                            = memory ex_state (shadow_page_base_for_rw info2 + off)"
      "\<forall>a. a \<noteq> shadow_page_base_for_exec info2 + BYTE_OFFSET 0x5020
                    \<longrightarrow> memory s2 a = memory ex_state a"
    by blast
  from d(5) have "(0x20::64 word) < PAGE_SIZE
      \<longrightarrow> memory s2 (shadow_page_base_for_rw info2 + 0x20)
          = memory ex_state (shadow_page_base_for_rw info2 + 0x20)"
    by blast
  then have d5: "memory s2 0x10020 = 0x90"
    by (simp add: d(2) sh m PAGE_SIZE_def)
  from d(6) have "(0x20008::64 word) \<noteq> shadow_page_base_for_exec info2 + BYTE_OFFSET 0x5020
      \<longrightarrow> memory s2 0x20008 = memory ex_state 0x20008"
    by blast
  then have d6: "memory s2 0x20008 = 0xcc"
    by (simp add: d(3) sh o m)
  have B: "\<exists>info s'. SbppCreateBreakpoint 0x5020 ex_state = Inr (info, s')
       \<and> shadow_page_base_for_rw info = 0x10000
       \<and> shadow_page_base_for_exec info = 0x20000
       \<and> memory s' 0x20020 = 0xcc
       \<and> memory s' 0x10020 = 0x90
       \<and> memory s' 0x20008 = 0xcc"
    using d(1-4) d5 d6 by (auto simp: o sh)
  from A B show ?thesis by blast
qed


section \<open>Installing a post breakpoint\<close>

text \<open>
  C9. \<^verbatim>\<open>SbpCreateAndEnablePostBreakpoint\<close> on a registry with at most one post record
  per page and owner thread.

  When a post record on the page of the address is owned by the calling thread, the call
  returns with nothing changed but the parameters of the first such record: no record is
  added, the extended page table and the trace are as they were, and the invariant holds.

  When there is none (and the record can be built: a record on the page lends its
  shadows, or the pool hands out two pages), the call returns with a new record at the
  end of the registry: of type Post, at the address, owned by the calling thread, with
  the given parameters, the name of the pre record and the pre record's post handler as
  its handler. The leaf entry of its page is on its exec shadow with read and write
  denied, followed by the invalidation, and the invariant holds for the longer registry.
\<close>

theorem SbpCreateAndEnablePostBreakpoint_one_post_per_thread:
  assumes "g_sbpp_breakpoints s = Some ptrs"
      and "post_unique ptrs"
  shows "(i < length ptrs
          \<and> type (ptrs ! i) = kPost
          \<and> PAGE_ALIGN (patch_address (ptrs ! i)) = PAGE_ALIGN address
          \<and> target_tid (ptrs ! i) = current_thread_id s
          \<and> (\<forall>j<i. \<not> (type (ptrs ! j) = kPost
                       \<and> PAGE_ALIGN (patch_address (ptrs ! j)) = PAGE_ALIGN address
                       \<and> target_tid (ptrs ! j) = current_thread_id s))
        \<longrightarrow> SbpCreateAndEnablePostBreakpoint address info params s
              = Inr (s\<lparr>g_sbpp_breakpoints :=
                         Some (ptrs[i := (ptrs ! i)\<lparr>parameters := params\<rparr>])\<rparr>)
            \<and> post_unique (ptrs[i := (ptrs ! i)\<lparr>parameters := params\<rparr>]))
     \<and> ((\<forall>r\<in>set ptrs. \<not> (type r = kPost
                           \<and> PAGE_ALIGN (patch_address r) = PAGE_ALIGN address
                           \<and> target_tid r = current_thread_id s))
          \<and> (find (\<lambda>r. PAGE_ALIGN (patch_address r) = PAGE_ALIGN address) ptrs \<noteq> None
               \<or> (pool s = rw # ex # rest \<and> rw \<noteq> 0 \<and> ex \<noteq> 0))
        \<longrightarrow> (\<exists>rec s'. SbpCreateAndEnablePostBreakpoint address info params s = Inr s'
              \<and> g_sbpp_breakpoints s' = Some (ptrs @ [rec])
              \<and> type rec = kPost
              \<and> patch_address rec = address
              \<and> handler rec = post_handler info
              \<and> post_handler rec = 0
              \<and> target_tid rec = current_thread_id s
              \<and> parameters rec = params
              \<and> name rec = name info
              \<and> pa_base_for_exec rec = UtilPaFromVa s (shadow_page_base_for_exec rec)
              \<and> ept_data s' =
                  (ept_data s)(EptGetEptPtEntry (UtilPaFromVa s address) :=
                    (ept_data s (EptGetEptPtEntry (UtilPaFromVa s address)))
                      \<lparr>write_access := False, read_access := False,
                       physial_address := UtilPfnFromPa (pa_base_for_exec rec)\<rparr>)
              \<and> trace s' = trace s @ [InvalidateAllCaches, InveptAll]
              \<and> post_unique (ptrs @ [rec])))"
proof (intro conjI impI)
  let ?P = "\<lambda>r. type r = kPost \<and> PAGE_ALIGN (patch_address r) = PAGE_ALIGN address
                \<and> target_tid r = current_thread_id s"
  assume a: "i < length ptrs
          \<and> type (ptrs ! i) = kPost
          \<and> PAGE_ALIGN (patch_address (ptrs ! i)) = PAGE_ALIGN address
          \<and> target_tid (ptrs ! i) = current_thread_id s
          \<and> (\<forall>j<i. \<not> (type (ptrs ! j) = kPost
                       \<and> PAGE_ALIGN (patch_address (ptrs ! j)) = PAGE_ALIGN address
                       \<and> target_tid (ptrs ! j) = current_thread_id s))"
  then have "find_if ?P ptrs = Some i"
    using find_if_first [of i ptrs ?P] by blast
  then have dup: "SbppFindDuplicatedPostPatchInfo address (PsGetCurrentThreadId s) s
      = Inr (Some i)"
    using assms(1)
    by (simp add: SbppFindDuplicatedPostPatchInfo_def deref_breakpoints_def ebind_def
        PsGetCurrentThreadId_def)
  show "SbpCreateAndEnablePostBreakpoint address info params s
              = Inr (s\<lparr>g_sbpp_breakpoints :=
                         Some (ptrs[i := (ptrs ! i)\<lparr>parameters := params\<rparr>])\<rparr>)"
    using assms(1) by (simp add: SbpCreateAndEnablePostBreakpoint_def dup ebind_def)
  from a show "post_unique (ptrs[i := (ptrs ! i)\<lparr>parameters := params\<rparr>])"
    by (simp add: post_unique_update [OF assms(2)])
next
  let ?P = "\<lambda>r. type r = kPost \<and> PAGE_ALIGN (patch_address r) = PAGE_ALIGN address
                \<and> target_tid r = current_thread_id s"
  assume b: "(\<forall>r\<in>set ptrs. \<not> (type r = kPost
                           \<and> PAGE_ALIGN (patch_address r) = PAGE_ALIGN address
                           \<and> target_tid r = current_thread_id s))
          \<and> (find (\<lambda>r. PAGE_ALIGN (patch_address r) = PAGE_ALIGN address) ptrs \<noteq> None
               \<or> (pool s = rw # ex # rest \<and> rw \<noteq> 0 \<and> ex \<noteq> 0))"
  then have "find_if ?P ptrs = None" by (simp add: find_if_None)
  then have nodup: "SbppFindDuplicatedPostPatchInfo address (current_thread_id s) s
      = Inr None"
    using assms(1)
    by (simp add: SbppFindDuplicatedPostPatchInfo_def deref_breakpoints_def ebind_def)
  from b have pre: "find (\<lambda>r. PAGE_ALIGN (patch_address r) = PAGE_ALIGN address) ptrs \<noteq> None
               \<or> (pool s = rw # ex # rest \<and> rw \<noteq> 0 \<and> ex \<noteq> 0)" by simp
  from SbppCreateBreakpoint_returns [OF assms(1) pre]
  obtain info0 s1 where c: "SbppCreateBreakpoint address s = Inr (info0, s1)"
      "patch_address info0 = address" "g_sbpp_breakpoints s1 = Some ptrs"
      "ept_data s1 = ept_data s" "va_to_pa s1 = va_to_pa s"
      "trace s1 = trace s @ [InvalidateAllCaches]"
      "pa_base_for_exec info0 = UtilPaFromVa s (shadow_page_base_for_exec info0)"
    by blast
  let ?rec = "info0\<lparr>type := kPost, handler := post_handler info, post_handler := 0,
                    target_tid := current_thread_id s, parameters := params,
                    name := name info\<rparr>"
  let ?s2 = "s1\<lparr>g_sbpp_breakpoints := Some (ptrs @ [?rec])\<rparr>"
  let ?s' = "SbppEnablePageShadowingForExec ?rec ?s2"
  have run: "SbpCreateAndEnablePostBreakpoint address info params s = Inr ?s'"
    using c(1,3)
    by (simp add: SbpCreateAndEnablePostBreakpoint_def nodup ebind_def
        SbppCreatePostBreakpoint_def SbppAddBreakpointToList_def PsGetCurrentThreadId_def)
  have uniq: "post_unique (ptrs @ [?rec])"
  proof (rule post_unique_append [OF assms(2)])
    show "type ?rec = kPost" by simp
    show "\<forall>r\<in>set ptrs. \<not> (type r = kPost \<and> post_key r = post_key ?rec)"
      using b by (simp add: post_key_def c(2))
  qed
  have ept: "ept_data ?s' =
                  (ept_data s)(EptGetEptPtEntry (UtilPaFromVa s address) :=
                    (ept_data s (EptGetEptPtEntry (UtilPaFromVa s address)))
                      \<lparr>write_access := False, read_access := False,
                       physial_address := UtilPfnFromPa (pa_base_for_exec ?rec)\<rparr>)"
    by (simp add: SbppEnablePageShadowingForExec_ept UtilPaFromVa_def c)
  have tr: "trace ?s' = trace s @ [InvalidateAllCaches, InveptAll]"
    by (simp add: engine_trace c)
  have gs: "g_sbpp_breakpoints ?s' = Some (ptrs @ [?rec])"
    by (simp add: engine_frame)
  show "\<exists>rec s'. SbpCreateAndEnablePostBreakpoint address info params s = Inr s'
              \<and> g_sbpp_breakpoints s' = Some (ptrs @ [rec])
              \<and> type rec = kPost
              \<and> patch_address rec = address
              \<and> handler rec = post_handler info
              \<and> post_handler rec = 0
              \<and> target_tid rec = current_thread_id s
              \<and> parameters rec = params
              \<and> name rec = name info
              \<and> pa_base_for_exec rec = UtilPaFromVa s (shadow_page_base_for_exec rec)
              \<and> ept_data s' =
                  (ept_data s)(EptGetEptPtEntry (UtilPaFromVa s address) :=
                    (ept_data s (EptGetEptPtEntry (UtilPaFromVa s address)))
                      \<lparr>write_access := False, read_access := False,
                       physial_address := UtilPfnFromPa (pa_base_for_exec rec)\<rparr>)
              \<and> trace s' = trace s @ [InvalidateAllCaches, InveptAll]
              \<and> post_unique (ptrs @ [rec])"
    apply (rule exI [of _ ?rec])
    apply (rule exI [of _ ?s'])
    using run gs ept tr uniq c(2) c(7) by simp
qed


text \<open>
  On the example state thread 4 installs at 0x5020, on the page of its post record: the
  parameters of that record are overwritten. Thread 9 installs at 0x5010: a third record
  is added and armed.
\<close>

theorem SbpCreateAndEnablePostBreakpoint_one_post_per_thread_witness:
  "SbpCreateAndEnablePostBreakpoint 0x5020 ex_pre [1, 2] ex_state
      = Inr (ex_state\<lparr>g_sbpp_breakpoints := Some [ex_pre, ex_post\<lparr>parameters := [1, 2]\<rparr>]\<rparr>)
   \<and> post_unique [ex_pre, ex_post\<lparr>parameters := [1, 2]\<rparr>]
   \<and> (\<exists>rec s'. SbpCreateAndEnablePostBreakpoint 0x5010 ex_pre [3]
                   (ex_state\<lparr>current_thread_id := 9\<rparr>) = Inr s'
         \<and> g_sbpp_breakpoints s' = Some [ex_pre, ex_post, rec]
         \<and> type rec = kPost \<and> handler rec = 2 \<and> target_tid rec = 9
         \<and> parameters rec = [3] \<and> patch_address rec = 0x5010
         \<and> read_access (ept_data s' 0x105) = False
         \<and> write_access (ept_data s' 0x105) = False
         \<and> trace s' = [InvalidateAllCaches, InveptAll]
         \<and> post_unique [ex_pre, ex_post, rec])"
proof -
  have g: "g_sbpp_breakpoints ex_state = Some [ex_pre, ex_post]"
      "g_sbpp_breakpoints (ex_state\<lparr>current_thread_id := 9\<rparr>) = Some [ex_pre, ex_post]"
    by (simp_all add: ex_state_def)
  have u: "post_unique [ex_pre, ex_post]"
    by (simp add: post_unique_def ex_pre_def ex_post_def)
  have d: "(1::nat) < length [ex_pre, ex_post]
          \<and> type ([ex_pre, ex_post] ! 1) = kPost
          \<and> PAGE_ALIGN (patch_address ([ex_pre, ex_post] ! 1)) = PAGE_ALIGN 0x5020
          \<and> target_tid ([ex_pre, ex_post] ! 1) = current_thread_id ex_state
          \<and> (\<forall>j<1. \<not> (type ([ex_pre, ex_post] ! j) = kPost
                       \<and> PAGE_ALIGN (patch_address ([ex_pre, ex_post] ! j)) = PAGE_ALIGN 0x5020
                       \<and> target_tid ([ex_pre, ex_post] ! j) = current_thread_id ex_state))"
    by (simp add: ex_pre_def ex_post_def ex_state_def PAGE_ALIGN_def PAGE_SIZE_def)
  from SbpCreateAndEnablePostBreakpoint_one_post_per_thread [OF g(1) u,
      where i = 1 and address = "0x5020" and info = ex_pre and params = "[1, 2]"] d
  have A: "SbpCreateAndEnablePostBreakpoint 0x5020 ex_pre [1, 2] ex_state
      = Inr (ex_state\<lparr>g_sbpp_breakpoints := Some [ex_pre, ex_post\<lparr>parameters := [1, 2]\<rparr>]\<rparr>)
   \<and> post_unique [ex_pre, ex_post\<lparr>parameters := [1, 2]\<rparr>]"
    by simp
  let ?u = "ex_state\<lparr>current_thread_id := 9\<rparr>"
  have n: "(\<forall>r\<in>set [ex_pre, ex_post]. \<not> (type r = kPost
                           \<and> PAGE_ALIGN (patch_address r) = PAGE_ALIGN 0x5010
                           \<and> target_tid r = current_thread_id ?u))
          \<and> (find (\<lambda>r. PAGE_ALIGN (patch_address r) = PAGE_ALIGN 0x5010) [ex_pre, ex_post]
                \<noteq> None
               \<or> (pool ?u = 0x30000 # 0x40000 # [] \<and> (0x30000::addr) \<noteq> 0
                   \<and> (0x40000::addr) \<noteq> 0))"
    by (simp add: ex_pre_def ex_post_def ex_state_def PAGE_ALIGN_def PAGE_SIZE_def)
  have k: "EptGetEptPtEntry (UtilPaFromVa ?u 0x5010) = 0x105"
      "post_handler ex_pre = 2" "current_thread_id ?u = 9" "trace ?u = []"
    by (simp_all add: EptGetEptPtEntry_def UtilPaFromVa_def UtilPfnFromPa_def ex_state_def
        ex_pre_def)
  from SbpCreateAndEnablePostBreakpoint_one_post_per_thread [OF g(2) u,
      where address = "0x5010" and info = ex_pre and params = "[3]" and rw = "0x30000"
        and ex = "0x40000" and rest = "[]"] n
  obtain rec s' where r: "SbpCreateAndEnablePostBreakpoint 0x5010 ex_pre [3] ?u = Inr s'"
      "g_sbpp_breakpoints s' = Some ([ex_pre, ex_post] @ [rec])"
      "type rec = kPost" "patch_address rec = 0x5010" "handler rec = post_handler ex_pre"
      "target_tid rec = current_thread_id ?u" "parameters rec = [3]"
      "ept_data s' =
         (ept_data ?u)(EptGetEptPtEntry (UtilPaFromVa ?u 0x5010) :=
            (ept_data ?u (EptGetEptPtEntry (UtilPaFromVa ?u 0x5010)))
              \<lparr>write_access := False, read_access := False,
               physial_address := UtilPfnFromPa (pa_base_for_exec rec)\<rparr>)"
      "trace s' = trace ?u @ [InvalidateAllCaches, InveptAll]"
      "post_unique ([ex_pre, ex_post] @ [rec])"
    by blast
  have B: "\<exists>rec s'. SbpCreateAndEnablePostBreakpoint 0x5010 ex_pre [3] ?u = Inr s'
         \<and> g_sbpp_breakpoints s' = Some [ex_pre, ex_post, rec]
         \<and> type rec = kPost \<and> handler rec = 2 \<and> target_tid rec = 9
         \<and> parameters rec = [3] \<and> patch_address rec = 0x5010
         \<and> read_access (ept_data s' 0x105) = False
         \<and> write_access (ept_data s' 0x105) = False
         \<and> trace s' = [InvalidateAllCaches, InveptAll]
         \<and> post_unique [ex_pre, ex_post, rec]"
    using r unfolding k by auto
  from A B show ?thesis by blast
qed


end
